theory Spec2Isabelle
  imports Main "HOL-Library.AList"
begin

section \<open>The JavaScript runtime, as far as the client uses it\<close>

text \<open>
  An awaited call either returns a value, throws, or never settles. The last case is what a
  \<open>fetch\<close> without an abort signal does against a peer that never answers.
\<close>

datatype exn = Exn (err_name: string) (err_message: string)

datatype 'a outcome = Returns 'a | Throws exn | Pending

definition Error :: "string \<Rightarrow> exn" where
  "Error msg = Exn ''Error'' msg"

definition AbortError :: exn where
  "AbortError = Exn ''AbortError'' ''Aborted''"

definition NetworkRequestFailed :: exn where
  "NetworkRequestFailed = Exn ''TypeError'' ''Network request failed''"

definition SyntaxError :: exn where
  "SyntaxError = Exn ''SyntaxError'' ''JSON Parse error''"

definition RangeError :: exn where
  "RangeError =
     Exn ''RangeError'' ''The status provided is outside the range [200, 599].''"

datatype json =
    JNull
  | JBool bool
  | JNum int
  | JStr string
  | JArr "json list"
  | JObj "(string \<times> json) list"

fun digits :: "nat \<Rightarrow> string" where
  "digits n =
     (if n < 10 then [char_of (48 + n)]
      else digits (n div 10) @ [char_of (48 + n mod 10)])"

declare digits.simps [simp del]

text \<open>\<open>Platform.OS\<close> of React Native.\<close>

datatype platform = Web | Android | IOS | Windows | MacOS


subsection \<open>Requests, responses and the network\<close>

datatype body = NoBody | TextBody string | FormFile string string string

record request =
  req_url :: string
  req_method :: string
  req_headers :: "(string \<times> string) list"
  req_body :: body
  req_timeout :: "nat option"

text \<open>
  \<open>req_timeout\<close> is the delay in milliseconds of the abort timer whose signal the request
  carries, \<open>None\<close> when the request carries no signal. \<open>resp_json\<close> is what
  \<open>JSON.parse\<close> makes of the body, \<open>None\<close> when the body is not JSON.
\<close>

record response =
  resp_status :: nat
  resp_statusText :: string
  resp_text :: string
  resp_json :: "json option"

definition resp_ok :: "response \<Rightarrow> bool" where
  "resp_ok r = (200 \<le> resp_status r \<and> resp_status r \<le> 299)"

text \<open>The statuses a \<open>Response\<close> object can be constructed with.\<close>

definition valid_status :: "response \<Rightarrow> bool" where
  "valid_status r = (200 \<le> resp_status r \<and> resp_status r \<le> 599)"

text \<open>
  What the network does with a request: answer after some milliseconds, refuse (the
  transport fails), or stay silent for ever. The answer may depend on the requests made
  before.
\<close>

datatype reply = Answer nat response | Unreachable | NoAnswer

record RequestInit =
  opt_method :: "string option"
  opt_headers :: "(string \<times> string) list"
  opt_body :: body
  opt_signal :: "nat option"

definition no_options :: RequestInit where
  "no_options = \<lparr>opt_method = None, opt_headers = [], opt_body = NoBody, opt_signal = None\<rparr>"

text \<open>Object spread \<open>{...base, ...extra}\<close>: a later key overrides, a new key is appended.\<close>

definition spread :: "(string \<times> string) list \<Rightarrow> (string \<times> string) list \<Rightarrow> (string \<times> string) list" where
  "spread base extra = fold (\<lambda>(k, v). AList.update k v) extra base"

definition method_of :: "string option \<Rightarrow> string" where
  "method_of m = (case m of None \<Rightarrow> ''GET'' | Some x \<Rightarrow> x)"

subsection \<open>Device state and environment\<close>

record User =
  user_id :: int
  user_email :: string
  user_name :: string
  user_role :: string
  user_is_active :: bool
  user_created_at :: string

record local_row =
  row_id :: int
  row_email :: string
  row_name :: string
  row_password :: string
  row_role :: string
  row_is_active :: int
  row_created_at :: string
  row_last_synced :: string

datatype storage_call = GetItem string | SetItem string string | RemoveItem string

text \<open>
  Everything mutable: the log of requests sent, the errors thrown in callbacks of the
  runtime that no handler caught, AsyncStorage with the log of the calls made on it, the
  module variable \<open>DYNAMIC_API_BASE_URL\<close>, the SQLite handle \<open>db\<close> with the \<open>users\<close>
  table behind it, and the state of the auth provider.
\<close>

record world =
  requests :: "request list"
  uncaught :: "exn list"
  storage :: "string \<rightharpoonup> string"
  storage_calls :: "storage_call list"
  DYNAMIC_API_BASE_URL :: "string option"
  db :: bool
  users :: "local_row list"
  ctx_user :: "User option"
  ctx_token :: "string option"
  isLoading :: bool
  isMechanicVerified :: bool
  apiUrl :: string

text \<open>
  Everything a call reads and does not change: the platform, the configured cloud URL, the
  network, \<open>NetInfo\<close>'s \<open>isConnected\<close> (which may be null), whether SQLite opens the
  database file and executes statements, the clock and the random source as the strings the
  code makes of them, and \<open>JSON.stringify\<close>.
\<close>

record env =
  platform_os :: platform
  CLOUD_BACKEND_URL :: string
  net :: "request list \<Rightarrow> request \<Rightarrow> reply"
  netInfo_isConnected :: "bool option"
  sqlite_opens :: bool
  sqlite_runs :: bool
  date_now :: string
  random36 :: string
  iso_now :: string
  JSON_stringify :: "json \<Rightarrow> string"

text \<open>
  \<open>fetch\<close> of React Native. A request whose abort timer fires before the answer is there
  is rejected with an AbortError, a transport failure rejects with a TypeError. Once the
  answer is there the abort signal has no effect any more, and the \<open>Response\<close> is built in
  a callback of the runtime: for a status outside 200..599 its constructor throws a
  RangeError there, which no handler of the caller can catch, and the promise is never
  settled. A request without a timer that is never answered stays pending as well.
\<close>

definition aborted :: "request \<Rightarrow> nat \<Rightarrow> bool" where
  "aborted r ms = (case req_timeout r of None \<Rightarrow> False | Some t \<Rightarrow> t \<le> ms)"

definition fetch :: "env \<Rightarrow> request \<Rightarrow> world \<Rightarrow> response outcome \<times> world" where
  "fetch e r w =
     (let w' = w\<lparr>requests := requests w @ [r]\<rparr> in
      case net e (requests w) r of
        Answer ms resp \<Rightarrow>
          if aborted r ms then (Throws AbortError, w')
          else if valid_status resp then (Returns resp, w')
          else (Pending, w'\<lparr>uncaught := uncaught w @ [RangeError]\<rparr>)
      | Unreachable \<Rightarrow> (Throws NetworkRequestFailed, w')
      | NoAnswer \<Rightarrow>
          (case req_timeout r of
             None \<Rightarrow> (Pending, w')
           | Some t \<Rightarrow> (Throws AbortError, w')))"

section \<open>apiConfig: base URL, health probe, discovery\<close>

definition placeholder_url :: string where
  "placeholder_url = ''https://your-app-name.onrender.com/api''"

definition HEALTH_CHECK_TIMEOUT :: nat where
  "HEALTH_CHECK_TIMEOUT = 30000"

definition API_TIMEOUT :: nat where
  "API_TIMEOUT = 60000"

definition getApiBaseUrl :: "env \<Rightarrow> string" where
  "getApiBaseUrl e =
     (if CLOUD_BACKEND_URL e \<noteq> placeholder_url then CLOUD_BACKEND_URL e
      else if platform_os e = Android then ''http://localhost:8000/api''
      else if platform_os e = IOS then ''http://localhost:8000/api''
      else ''http://localhost:8000/api'')"

definition json_headers :: "(string \<times> string) list" where
  "json_headers = [(''Accept'', ''application/json''), (''Content-Type'', ''application/json'')]"

definition healthRequest :: "string \<Rightarrow> request" where
  "healthRequest u =
     \<lparr>req_url = u @ ''/health'', req_method = ''GET'', req_headers = json_headers,
      req_body = NoBody, req_timeout = Some HEALTH_CHECK_TIMEOUT\<rparr>"

text \<open>
  \<open>testConnection\<close>: the whole body is inside \<open>try\<close>; the handler returns false. A
  \<open>fetch\<close> that never settles leaves the probe pending.
\<close>

definition testConnection :: "env \<Rightarrow> string \<Rightarrow> world \<Rightarrow> bool outcome \<times> world" where
  "testConnection e u w =
     (case fetch e (healthRequest u) w of
        (Returns resp, w') \<Rightarrow> (Returns (resp_ok resp), w')
      | (Throws x, w') \<Rightarrow> (Returns False, w')
      | (Pending, w') \<Rightarrow> (Pending, w'))"

text \<open>The list \<open>possibleUrls\<close> that \<open>findWorkingConnection\<close> fills before its loop.\<close>

definition possibleUrls :: "env \<Rightarrow> string list" where
  "possibleUrls e =
     (if CLOUD_BACKEND_URL e \<noteq> placeholder_url then [CLOUD_BACKEND_URL e] else []) @
     (if platform_os e = Android then
        [''http://localhost:8000/api'', ''http://10.0.2.2:8000/api'',
         ''http://127.0.0.1:8000/api'', ''http://192.168.1.100:8000/api'']
      else if platform_os e = IOS then
        [''http://localhost:8000/api'', ''http://127.0.0.1:8000/api'',
         ''http://192.168.1.100:8000/api'']
      else [])"

text \<open>
  The loop of \<open>findWorkingConnection\<close>. A throw of the probe is caught inside the loop body
  and the loop goes on.
\<close>

fun tryConnections :: "env \<Rightarrow> string list \<Rightarrow> world \<Rightarrow> string option outcome \<times> world" where
  "tryConnections e [] w = (Returns None, w)"
| "tryConnections e (u # us) w =
     (case testConnection e u w of
        (Returns isConnected, w') \<Rightarrow>
          if isConnected then (Returns (Some u), w') else tryConnections e us w'
      | (Throws x, w') \<Rightarrow> tryConnections e us w'
      | (Pending, w') \<Rightarrow> (Pending, w'))"

definition findWorkingConnection :: "env \<Rightarrow> world \<Rightarrow> string option outcome \<times> world" where
  "findWorkingConnection e w = tryConnections e (possibleUrls e) w"

text \<open>\<open>fetchWithTimeout\<close>: the handler clears the timer and throws the error again.\<close>

definition fetchWithTimeout ::
  "env \<Rightarrow> string \<Rightarrow> RequestInit \<Rightarrow> nat \<Rightarrow> world \<Rightarrow> response outcome \<times> world" where
  "fetchWithTimeout e u options t w =
     fetch e
       \<lparr>req_url = u, req_method = method_of (opt_method options),
        req_headers = spread json_headers (opt_headers options),
        req_body = opt_body options, req_timeout = Some t\<rparr> w"

section \<open>connectionTest: the diagnostic discovery\<close>





definition machineIPs :: "string list" where
  "machineIPs = [''192.168.1.100'', ''192.168.0.100'', ''192.168.114.97'', ''10.0.0.100'']"

definition getPossibleBackendUrls :: "env \<Rightarrow> string list" where
  "getPossibleBackendUrls e =
     (if platform_os e = Web then
        [''http://localhost:8000/api'', ''http://127.0.0.1:8000/api'']
      else if platform_os e = Android then
        [''http://10.0.2.2:8000/api'', ''http://localhost:8000/api'',
         ''http://127.0.0.1:8000/api'']
      else if platform_os e = IOS then
        [''http://localhost:8000/api'', ''http://127.0.0.1:8000/api'']
      else []) @
     map (\<lambda>ip. ''http://'' @ ip @ '':8000/api'') machineIPs"




section \<open>JSON values as the code reads them\<close>

text \<open>
  Property access for the keys the client reads (\<open>detail\<close>, \<open>access_token\<close>, \<open>user\<close>):
  it throws on null, finds the last binding in an object, and is undefined on anything else.
\<close>

fun get_prop :: "json \<Rightarrow> string \<Rightarrow> json option outcome" where
  "get_prop JNull k = Throws (Exn ''TypeError'' (''Cannot read property '' @ k @ '' of null''))"
| "get_prop (JObj kvs) k = Returns (map_of (rev kvs) k)"
| "get_prop j k = Returns None"

fun truthy :: "json \<Rightarrow> bool" where
  "truthy JNull = False"
| "truthy (JBool b) = b"
| "truthy (JNum n) = (n \<noteq> 0)"
| "truthy (JStr s) = (s \<noteq> [])"
| "truthy (JArr xs) = True"
| "truthy (JObj kvs) = True"

fun join_comma :: "string list \<Rightarrow> string" where
  "join_comma [] = []"
| "join_comma [x] = x"
| "join_comma (x # y # ys) = x @ '','' @ join_comma (y # ys)"

text \<open>\<open>String(v)\<close>, which \<open>new Error(v)\<close> applies to its argument.\<close>

fun js_String :: "json \<Rightarrow> string" where
  "js_String JNull = ''null''"
| "js_String (JBool b) = (if b then ''true'' else ''false'')"
| "js_String (JNum n) = (if n < 0 then ''-'' @ digits (nat (- n)) else digits (nat n))"
| "js_String (JStr s) = s"
| "js_String (JArr xs) = join_comma (map (\<lambda>x. if x = JNull then [] else js_String x) xs)"
| "js_String (JObj kvs) = ''[object Object]''"

section \<open>AsyncStorage\<close>

text \<open>
  The key-value store of the device is a finite map; its operations always succeed and each
  is recorded in \<open>storage_calls\<close>.
\<close>

definition getItem :: "string \<Rightarrow> world \<Rightarrow> string option outcome \<times> world" where
  "getItem k w = (Returns (storage w k), w\<lparr>storage_calls := storage_calls w @ [GetItem k]\<rparr>)"

definition setItem :: "string \<Rightarrow> string \<Rightarrow> world \<Rightarrow> unit outcome \<times> world" where
  "setItem k v w =
     (Returns (), w\<lparr>storage := (storage w)(k \<mapsto> v),
                    storage_calls := storage_calls w @ [SetItem k v]\<rparr>)"

definition removeItem :: "string \<Rightarrow> world \<Rightarrow> unit outcome \<times> world" where
  "removeItem k w =
     (Returns (), w\<lparr>storage := (storage w)(k := None),
                    storage_calls := storage_calls w @ [RemoveItem k]\<rparr>)"

section \<open>api: cached base URL and the dispatcher\<close>

definition useFallback :: "env \<Rightarrow> world \<Rightarrow> string outcome \<times> world" where
  "useFallback e w =
     (let fallbackUrl = getApiBaseUrl e
      in (Returns fallbackUrl, w\<lparr>DYNAMIC_API_BASE_URL := Some fallbackUrl\<rparr>))"

text \<open>The part of \<open>findWorkingApiUrl\<close> after the test of the cached value.\<close>

definition discoverApiUrl :: "env \<Rightarrow> world \<Rightarrow> string outcome \<times> world" where
  "discoverApiUrl e w =
     (case findWorkingConnection e w of
        (Returns None, w') \<Rightarrow> useFallback e w'
      | (Returns (Some url), w') \<Rightarrow>
          if url \<noteq> [] then
            (Returns url, w'\<lparr>DYNAMIC_API_BASE_URL := Some url\<rparr>)
          else useFallback e w'
      | (Throws x, w') \<Rightarrow> (Throws x, w')
      | (Pending, w') \<Rightarrow> (Pending, w'))"

text \<open>\<open>if (DYNAMIC_API_BASE_URL)\<close> holds for a string that is neither null nor empty.\<close>

definition findWorkingApiUrl :: "env \<Rightarrow> world \<Rightarrow> string outcome \<times> world" where
  "findWorkingApiUrl e w =
     (case DYNAMIC_API_BASE_URL w of
        None \<Rightarrow> discoverApiUrl e w
      | Some cached \<Rightarrow> if cached \<noteq> [] then (Returns cached, w) else discoverApiUrl e w)"

definition getWorkingApiBaseUrl :: "env \<Rightarrow> world \<Rightarrow> string outcome \<times> world" where
  "getWorkingApiBaseUrl e w = findWorkingApiUrl e w"

definition getAuthToken :: "world \<Rightarrow> string option outcome \<times> world" where
  "getAuthToken w =
     (case getItem ''authToken'' w of
        (Returns t, w') \<Rightarrow> (Returns t, w')
      | (Throws x, w') \<Rightarrow> (Returns None, w')
      | (Pending, w') \<Rightarrow> (Pending, w'))"

text \<open>\<open>...(token && { Authorization: ... })\<close> adds nothing for null and for the empty string.\<close>

definition auth_header :: "string option \<Rightarrow> (string \<times> string) list" where
  "auth_header token =
     (case token of
        None \<Rightarrow> []
      | Some t \<Rightarrow> if t = [] then [] else [(''Authorization'', ''Bearer '' @ t)])"

text \<open>The request \<open>apiCall\<close> hands to \<open>fetch\<close>: the caller's options, with the headers rebuilt.\<close>

definition apiRequest :: "string \<Rightarrow> string option \<Rightarrow> string \<Rightarrow> RequestInit \<Rightarrow> request" where
  "apiRequest API_BASE_URL token endpoint options =
     \<lparr>req_url = API_BASE_URL @ endpoint, req_method = method_of (opt_method options),
      req_headers =
        spread (spread [(''Content-Type'', ''application/json'')] (auth_header token))
          (opt_headers options),
      req_body = opt_body options, req_timeout = opt_signal options\<rparr>"

definition api_error :: "response \<Rightarrow> exn" where
  "api_error resp =
     (let error = (case resp_json resp of
                     None \<Rightarrow> JObj [(''detail'', JStr ''Network error'')]
                   | Some j \<Rightarrow> j)
      in case get_prop error ''detail'' of
           Returns (Some d) \<Rightarrow> if truthy d then Error (js_String d) else Error ''API request failed''
         | Returns None \<Rightarrow> Error ''API request failed''
         | Throws x \<Rightarrow> x
         | Pending \<Rightarrow> Error ''API request failed'')"

definition apiCall :: "env \<Rightarrow> string \<Rightarrow> RequestInit \<Rightarrow> world \<Rightarrow> json outcome \<times> world" where
  "apiCall e endpoint options w =
     (case getWorkingApiBaseUrl e w of
        (Throws x, w1) \<Rightarrow> (Throws x, w1)
      | (Pending, w1) \<Rightarrow> (Pending, w1)
      | (Returns API_BASE_URL, w1) \<Rightarrow>
     (case getAuthToken w1 of
        (Throws x, w2) \<Rightarrow> (Throws x, w2)
      | (Pending, w2) \<Rightarrow> (Pending, w2)
      | (Returns token, w2) \<Rightarrow>
     (case fetch e (apiRequest API_BASE_URL token endpoint options) w2 of
        (Throws x, w3) \<Rightarrow> (Throws x, w3)
      | (Pending, w3) \<Rightarrow> (Pending, w3)
      | (Returns resp, w3) \<Rightarrow>
          if \<not> resp_ok resp then
            if resp_status resp = 401 then
              (case removeItem ''authToken'' w3 of
                 (Returns u, w4) \<Rightarrow> (Throws (Error ''Not authenticated''), w4)
               | (Throws x, w4) \<Rightarrow> (Throws x, w4)
               | (Pending, w4) \<Rightarrow> (Pending, w4))
            else (Throws (api_error resp), w3)
          else
            (case resp_json resp of
               Some j \<Rightarrow> (Returns j, w3)
             | None \<Rightarrow> (Throws SyntaxError, w3)))))"

section \<open>AuthContext: the session manager\<close>

text \<open>Awaiting one call and going on with its value; a throw or a pending call ends the block.\<close>

definition andThen ::
  "'a outcome \<times> world \<Rightarrow> ('a \<Rightarrow> world \<Rightarrow> 'b outcome \<times> world) \<Rightarrow> 'b outcome \<times> world" where
  "andThen m f =
     (case m of
        (Returns x, w) \<Rightarrow> f x w
      | (Throws ex, w) \<Rightarrow> (Throws ex, w)
      | (Pending, w) \<Rightarrow> (Pending, w))"

text \<open>\<open>!netInfo.isConnected\<close>: true for false and for null.\<close>

definition offline :: "env \<Rightarrow> bool" where
  "offline e = (netInfo_isConnected e \<noteq> Some True)"

subsection \<open>The local credential cache\<close>

text \<open>
  \<open>initDatabase\<close>: the handle is assigned as soon as the file opens; a failure of the
  open or of the \<open>CREATE TABLE\<close> statement is caught and logged.
\<close>

definition initDatabase :: "env \<Rightarrow> world \<Rightarrow> unit outcome \<times> world" where
  "initDatabase e w =
     (if sqlite_opens e then
        (let w' = w\<lparr>db := True\<rparr>
         in if sqlite_runs e then (Returns (), w') else (Returns (), w'))
      else (Returns (), w))"

definition null_handle :: exn where
  "null_handle = Exn ''TypeError'' ''Cannot read property of null''"

definition sqlite_error :: exn where
  "sqlite_error = Exn ''Error'' ''SQLite statement failed''"

text \<open>\<open>SELECT * FROM users WHERE email = ? AND password = ?\<close>, first row.\<close>

definition getFirstAsync :: "env \<Rightarrow> string \<Rightarrow> string \<Rightarrow> world \<Rightarrow> local_row option outcome" where
  "getFirstAsync e email password w =
     (if \<not> db w then Throws null_handle
      else if \<not> sqlite_runs e then Throws sqlite_error
      else Returns (find (\<lambda>r. row_email r = email \<and> row_password r = password) (users w)))"

definition user_of_row :: "local_row \<Rightarrow> User" where
  "user_of_row result =
     \<lparr>user_id = row_id result, user_email = row_email result, user_name = row_name result,
      user_role = row_role result, user_is_active = (row_is_active result \<noteq> 0),
      user_created_at = row_created_at result\<rparr>"

text \<open>\<open>checkLocalUser\<close>: everything is inside \<open>try\<close>; the handler returns null.\<close>

definition checkLocalUser ::
  "env \<Rightarrow> string \<Rightarrow> string \<Rightarrow> world \<Rightarrow> User option outcome \<times> world" where
  "checkLocalUser e email password w =
     (case (if \<not> db w then initDatabase e w else (Returns (), w)) of
        (Returns u, w1) \<Rightarrow>
          (case getFirstAsync e email password w1 of
             Returns (Some result) \<Rightarrow> (Returns (Some (user_of_row result)), w1)
           | Returns None \<Rightarrow> (Returns None, w1)
           | Throws x \<Rightarrow> (Returns None, w1)
           | Pending \<Rightarrow> (Pending, w1))
      | (Throws x, w1) \<Rightarrow> (Returns None, w1)
      | (Pending, w1) \<Rightarrow> (Pending, w1))"

text \<open>
  \<open>INSERT OR REPLACE\<close> with \<open>id\<close> the primary key and \<open>email\<close> unique: the rows in
  conflict on either column are deleted and the new row is inserted.
\<close>

definition insert_or_replace :: "local_row \<Rightarrow> local_row list \<Rightarrow> local_row list" where
  "insert_or_replace new rows =
     filter (\<lambda>r. row_id r \<noteq> row_id new \<and> row_email r \<noteq> row_email new) rows @ [new]"

definition runAsync :: "env \<Rightarrow> local_row \<Rightarrow> world \<Rightarrow> unit outcome \<times> world" where
  "runAsync e new w =
     (if \<not> db w then (Throws null_handle, w)
      else if \<not> sqlite_runs e then (Throws sqlite_error, w)
      else (Returns (), w\<lparr>users := insert_or_replace new (users w)\<rparr>))"

text \<open>
  \<open>saveLocalUser\<close>: everything is inside \<open>try\<close>; the handler only logs. The argument is
  \<open>None\<close> when the server's \<open>user\<close> value is not of type \<open>User\<close>; building the statement's
  parameters from it fails, inside the same \<open>try\<close>.
\<close>

definition saveLocalUser :: "env \<Rightarrow> User option \<Rightarrow> string \<Rightarrow> world \<Rightarrow> unit outcome \<times> world" where
  "saveLocalUser e user password w =
     (case (if \<not> db w then initDatabase e w else (Returns (), w)) of
        (Returns u, w1) \<Rightarrow>
          (case user of
             None \<Rightarrow> (Returns (), w1)
           | Some usr \<Rightarrow>
               (case runAsync e
                       \<lparr>row_id = user_id usr, row_email = user_email usr,
                        row_name = user_name usr, row_password = password,
                        row_role = user_role usr,
                        row_is_active = (if user_is_active usr then 1 else 0),
                        row_created_at = user_created_at usr,
                        row_last_synced = iso_now e\<rparr> w1 of
                  (Returns v, w2) \<Rightarrow> (Returns (), w2)
                | (Throws x, w2) \<Rightarrow> (Returns (), w2)
                | (Pending, w2) \<Rightarrow> (Pending, w2)))
      | (Throws x, w1) \<Rightarrow> (Returns (), w1)
      | (Pending, w1) \<Rightarrow> (Pending, w1))"

subsection \<open>Sign-in and sign-out\<close>

definition json_of_user :: "User \<Rightarrow> json" where
  "json_of_user u =
     JObj [(''id'', JNum (user_id u)), (''email'', JStr (user_email u)),
           (''name'', JStr (user_name u)), (''role'', JStr (user_role u)),
           (''is_active'', JBool (user_is_active u)),
           (''created_at'', JStr (user_created_at u))]"

text \<open>
  The provider's state and the cache rows are typed as the code declares them (\<open>User\<close>,
  the columns of \<open>users\<close>). \<open>user_of_json\<close> reads a \<open>User\<close> off the \<open>user\<close> value of a
  login reply; it is defined on the replies that have the six fields with their declared
  types. For any other value the code goes on with the object as it is; what the provider
  and SQLite then hold is not a \<open>User\<close> and is not described here: the model leaves the
  context user empty and writes no row.
\<close>

definition user_of_json :: "json \<Rightarrow> User option" where
  "user_of_json j =
     (case j of
        JObj kvs \<Rightarrow>
          (case (map_of (rev kvs) ''id'', map_of (rev kvs) ''email'', map_of (rev kvs) ''name'',
                 map_of (rev kvs) ''role'', map_of (rev kvs) ''is_active'',
                 map_of (rev kvs) ''created_at'') of
             (Some (JNum i), Some (JStr em), Some (JStr nm), Some (JStr rl), Some (JBool a),
              Some (JStr c)) \<Rightarrow>
               Some \<lparr>user_id = i, user_email = em, user_name = nm, user_role = rl,
                     user_is_active = a, user_created_at = c\<rparr>
           | other \<Rightarrow> None)
      | other \<Rightarrow> None)"

text \<open>
  \<open>AsyncStorage.setItem\<close> with a value taken from a server reply: the store takes strings
  only and rejects the call for undefined or any other value.
\<close>

definition setItem_value :: "string \<Rightarrow> json option \<Rightarrow> world \<Rightarrow> unit outcome \<times> world" where
  "setItem_value k v w =
     (case v of
        Some (JStr s) \<Rightarrow> setItem k s w
      | other \<Rightarrow> (Throws (Error ''AsyncStorage: the value is not a string''), w))"

text \<open>
  The message for a reply that is not ok: \<open>detail\<close> of the JSON body when it is truthy,
  the default when the JSON has no truthy \<open>detail\<close>, the raw text (or the default, when
  the text is empty) when reading the JSON fails.
\<close>

definition error_detail :: "string \<Rightarrow> response \<Rightarrow> string" where
  "error_detail dflt resp =
     (let errorText = resp_text resp;
          fromText = (if errorText \<noteq> [] then errorText else dflt)
      in case resp_json resp of
           None \<Rightarrow> fromText
         | Some errorJson \<Rightarrow>
             (case get_prop errorJson ''detail'' of
                Returns (Some d) \<Rightarrow> if truthy d then js_String d else dflt
              | Returns None \<Rightarrow> dflt
              | Throws x \<Rightarrow> fromText
              | Pending \<Rightarrow> fromText))"

definition offline_message :: string where
  "offline_message = ''Cannot authenticate while offline. No matching local account found.''"

definition offlineSignIn :: "env \<Rightarrow> string \<Rightarrow> string \<Rightarrow> world \<Rightarrow> unit outcome \<times> world" where
  "offlineSignIn e email password w =
     andThen (checkLocalUser e email password w) (\<lambda>found w1.
       case found of
         Some localUser \<Rightarrow>
           (let w2 = w1\<lparr>ctx_user := Some localUser\<rparr>;
                offlineToken = ''offline_'' @ date_now e @ ''_'' @ random36 e;
                w3 = w2\<lparr>ctx_token := Some offlineToken\<rparr>
            in andThen (setItem ''authToken'' offlineToken w3) (\<lambda>u w4.
               andThen (setItem ''user'' (JSON_stringify e (json_of_user localUser)) w4)
                 (\<lambda>u w5. (Returns (), w5))))
       | None \<Rightarrow> (Throws (Error offline_message), w1))"

definition loginRequest :: "env \<Rightarrow> string \<Rightarrow> string \<Rightarrow> RequestInit" where
  "loginRequest e email password =
     \<lparr>opt_method = Some ''POST'', opt_headers = [(''Content-Type'', ''application/json'')],
      opt_body = TextBody (JSON_stringify e
                   (JObj [(''email'', JStr email), (''password'', JStr password)])),
      opt_signal = None\<rparr>"

definition onlineSignIn :: "env \<Rightarrow> string \<Rightarrow> string \<Rightarrow> world \<Rightarrow> unit outcome \<times> world" where
  "onlineSignIn e email password w =
     andThen (fetchWithTimeout e (apiUrl w @ ''/auth/login'')
                (loginRequest e email password) 30000 w) (\<lambda>resp w1.
       if \<not> resp_ok resp then (Throws (Error (error_detail ''Login failed'' resp)), w1)
       else
         (case resp_json resp of
            None \<Rightarrow> (Throws SyntaxError, w1)
          | Some data \<Rightarrow>
              andThen (get_prop data ''access_token'', w1) (\<lambda>access_token w1.
              andThen (setItem_value ''authToken'' access_token w1) (\<lambda>u w2.
              andThen (get_prop data ''user'', w2) (\<lambda>user w2.
              andThen (setItem_value ''user''
                         (map_option (\<lambda>j. JStr (JSON_stringify e j)) user) w2) (\<lambda>u w3.
              andThen (saveLocalUser e (Option.bind user user_of_json) password w3) (\<lambda>u w4.
                (Returns (),
                 w4\<lparr>ctx_token := (case access_token of Some (JStr s) \<Rightarrow> Some s | other \<Rightarrow> None),
                    ctx_user := Option.bind user user_of_json\<rparr>))))))))"

text \<open>
  \<open>signIn\<close>: the handler throws the error again; \<open>finally\<close> resets \<open>isLoading\<close> once
  the block has settled.
\<close>

definition signIn :: "env \<Rightarrow> string \<Rightarrow> string \<Rightarrow> world \<Rightarrow> unit outcome \<times> world" where
  "signIn e email password w =
     (case (if offline e then offlineSignIn e email password (w\<lparr>isLoading := True\<rparr>)
            else onlineSignIn e email password (w\<lparr>isLoading := True\<rparr>)) of
        (Pending, w') \<Rightarrow> (Pending, w')
      | (Returns u, w') \<Rightarrow> (Returns u, w'\<lparr>isLoading := False\<rparr>)
      | (Throws x, w') \<Rightarrow> (Throws x, w'\<lparr>isLoading := False\<rparr>))"

definition signOut :: "world \<Rightarrow> unit outcome \<times> world" where
  "signOut w =
     andThen (removeItem ''authToken'' w) (\<lambda>u w1.
     andThen (removeItem ''user'' w1) (\<lambda>u w2.
       (Returns (), w2\<lparr>ctx_user := None, ctx_token := None\<rparr>)))"

subsection \<open>Mechanic operations\<close>

record MechanicInfo =
  business_name :: "string option"
  phone :: "string option"
  specialization :: "string option"
  experience_years :: "int option"
  address :: "string option"

definition json_of_info :: "MechanicInfo \<Rightarrow> json" where
  "json_of_info info =
     JObj (concat
       [case business_name info of None \<Rightarrow> [] | Some v \<Rightarrow> [(''business_name'', JStr v)],
        case phone info of None \<Rightarrow> [] | Some v \<Rightarrow> [(''phone'', JStr v)],
        case specialization info of None \<Rightarrow> [] | Some v \<Rightarrow> [(''specialization'', JStr v)],
        case experience_years info of None \<Rightarrow> [] | Some v \<Rightarrow> [(''experience_years'', JNum v)],
        case address info of None \<Rightarrow> [] | Some v \<Rightarrow> [(''address'', JStr v)]])"

text \<open>\<open>!token\<close>: true for null and for the empty string.\<close>

definition no_token :: "world \<Rightarrow> bool" where
  "no_token w = (case ctx_token w of None \<Rightarrow> True | Some t \<Rightarrow> t = [])"

definition bearer :: "world \<Rightarrow> string" where
  "bearer w = ''Bearer '' @ (case ctx_token w of None \<Rightarrow> ''null'' | Some t \<Rightarrow> t)"

definition not_a_mechanic :: "world \<Rightarrow> bool" where
  "not_a_mechanic w =
     (case ctx_user w of None \<Rightarrow> True | Some u \<Rightarrow> user_role u \<noteq> ''mechanic'')"

definition update_offline_message :: string where
  "update_offline_message =
     ''Cannot update profile while offline. Please connect to the internet and try again.''"

definition upload_offline_message :: string where
  "upload_offline_message =
     ''Cannot upload certificate while offline. Please connect to the internet and try again.''"

definition updateMechanicInfo :: "env \<Rightarrow> MechanicInfo \<Rightarrow> world \<Rightarrow> unit outcome \<times> world" where
  "updateMechanicInfo e info w =
     (if not_a_mechanic w \<or> no_token w then (Returns (), w)
      else if offline e then (Throws (Error update_offline_message), w)
      else
        andThen (fetchWithTimeout e (apiUrl w @ ''/mechanics/me'')
                   \<lparr>opt_method = Some ''PUT'',
                    opt_headers = [(''Content-Type'', ''application/json''),
                                   (''Authorization'', bearer w)],
                    opt_body = TextBody (JSON_stringify e (json_of_info info)),
                    opt_signal = None\<rparr> API_TIMEOUT w) (\<lambda>resp w1.
          if \<not> resp_ok resp then (Throws (Error ''Failed to update mechanic info''), w1)
          else (Returns (), w1)))"

definition uploadCertificate :: "env \<Rightarrow> string \<Rightarrow> world \<Rightarrow> unit outcome \<times> world" where
  "uploadCertificate e certificateUri w =
     (if no_token w then (Throws (Error ''Not authenticated''), w)
      else if offline e then (Throws (Error upload_offline_message), w)
      else
        andThen (fetchWithTimeout e (apiUrl w @ ''/mechanics/upload-certificate'')
                   \<lparr>opt_method = Some ''POST'',
                    opt_headers = [(''Authorization'', bearer w)],
                    opt_body = FormFile certificateUri ''image/jpeg'' ''certificate.jpg'',
                    opt_signal = None\<rparr> API_TIMEOUT w) (\<lambda>resp w1.
          if \<not> resp_ok resp then (Throws (Error ''Failed to upload certificate''), w1)
          else (Returns (), w1\<lparr>isMechanicVerified := True\<rparr>)))"

section \<open>What the claims speak about\<close>

subsection \<open>Outcome of a health probe\<close>

text \<open>
  A probe answers with success when the network answers it with a 2xx status before the
  abort timer of the request fires. \<open>answers_json\<close> asks in addition that the body
  parses as JSON. A probe never settles when it is answered in time with a status outside
  200..599 (or, without a timer, is never answered).
\<close>

definition answers_ok :: "env \<Rightarrow> request list \<Rightarrow> request \<Rightarrow> bool" where
  "answers_ok e log r =
     (case net e log r of
        Answer ms resp \<Rightarrow>
          resp_ok resp \<and> (case req_timeout r of None \<Rightarrow> True | Some t \<Rightarrow> ms < t)
      | Unreachable \<Rightarrow> False
      | NoAnswer \<Rightarrow> False)"


definition never_settles :: "env \<Rightarrow> request list \<Rightarrow> request \<Rightarrow> bool" where
  "never_settles e log r =
     (case net e log r of
        Answer ms resp \<Rightarrow>
          \<not> valid_status resp \<and> (case req_timeout r of None \<Rightarrow> True | Some t \<Rightarrow> ms < t)
      | Unreachable \<Rightarrow> False
      | NoAnswer \<Rightarrow> req_timeout r = None)"






subsection \<open>Headers, requests of one call, transport failures\<close>

text \<open>
  Header names are compared without regard to case. \<open>new_requests w w'\<close> are the
  requests sent between the states \<open>w\<close> and \<open>w'\<close>. \<open>transport_failure\<close> is the
  exception \<open>fetch\<close> throws for a request, if it throws.
\<close>

definition is_authorization :: "string \<Rightarrow> bool" where
  "is_authorization k =
     (map (\<lambda>c. let n = (of_char c :: nat) in if 65 \<le> n \<and> n \<le> 90 then n + 32 else n) k
        = map of_char ''authorization'')"

definition carries_authorization :: "request \<Rightarrow> bool" where
  "carries_authorization r = list_ex (\<lambda>(k, v). is_authorization k) (req_headers r)"

definition new_requests :: "world \<Rightarrow> world \<Rightarrow> request list" where
  "new_requests w w' = drop (length (requests w)) (requests w')"

definition transport_failure :: "env \<Rightarrow> request list \<Rightarrow> request \<Rightarrow> exn option" where
  "transport_failure e log r =
     (case net e log r of
        Unreachable \<Rightarrow> Some NetworkRequestFailed
      | NoAnswer \<Rightarrow> (case req_timeout r of None \<Rightarrow> None | Some t \<Rightarrow> Some AbortError)
      | Answer ms resp \<Rightarrow>
          (case req_timeout r of
             None \<Rightarrow> None
           | Some t \<Rightarrow> if ms < t then None else Some AbortError))"

subsection \<open>The offline credential cache\<close>

text \<open>
  The cache is readable when a handle exists or can be opened and statements execute; a
  row matches when both its email and its password equal the ones submitted.
\<close>

definition offline_token :: "env \<Rightarrow> string" where
  "offline_token e = ''offline_'' @ date_now e @ ''_'' @ random36 e"

definition cache_readable :: "env \<Rightarrow> world \<Rightarrow> bool" where
  "cache_readable e w = ((db w \<or> sqlite_opens e) \<and> sqlite_runs e)"

definition matching :: "string \<Rightarrow> string \<Rightarrow> local_row \<Rightarrow> bool" where
  "matching email password = (\<lambda>r. row_email r = email \<and> row_password r = password)"

subsection \<open>Classes of candidate addresses\<close>

text \<open>
  The host of an \<open>http://\<close> URL; loopback and emulator hosts; hosts of the private
  ranges the lists enumerate; the cloud entry of a list; the URLs of \<open>machineIPs\<close>.
\<close>

definition url_host :: "string \<Rightarrow> string" where
  "url_host u = takeWhile (\<lambda>c. c \<noteq> CHR '':'' \<and> c \<noteq> CHR ''/'') (drop 7 u)"

definition local_address :: "string \<Rightarrow> bool" where
  "local_address u =
     (take 7 u = ''http://'' \<and>
      (url_host u = ''localhost'' \<or> url_host u = ''127.0.0.1'' \<or> url_host u = ''10.0.2.2''))"

definition private_lan_address :: "string \<Rightarrow> bool" where
  "private_lan_address u =
     (take 7 u = ''http://'' \<and>
      (take 8 (url_host u) = ''192.168.'' \<or> take 7 (url_host u) = ''10.0.0.''))"

definition cloud_part :: "env \<Rightarrow> string list" where
  "cloud_part e =
     (if CLOUD_BACKEND_URL e \<noteq> placeholder_url then [CLOUD_BACKEND_URL e] else [])"

definition machine_urls :: "string list" where
  "machine_urls =
     [''http://192.168.1.100:8000/api'', ''http://192.168.0.100:8000/api'',
      ''http://192.168.114.97:8000/api'', ''http://10.0.0.100:8000/api'']"

subsection \<open>Sample devices, networks and replies\<close>

definition fresh_world :: world where
  "fresh_world =
     \<lparr>requests = [], uncaught = [], storage = Map.empty, storage_calls = [], DYNAMIC_API_BASE_URL = None,
      db = False, users = [], ctx_user = None, ctx_token = None, isLoading = False,
      isMechanicVerified = False, apiUrl = ''http://localhost:8000/api''\<rparr>"

definition ok_json :: response where
  "ok_json = \<lparr>resp_status = 200, resp_statusText = ''OK'',
              resp_text = ''{}'', resp_json = Some (JObj [])\<rparr>"

definition ok_html :: response where
  "ok_html = \<lparr>resp_status = 200, resp_statusText = ''OK'',
              resp_text = ''<html></html>'', resp_json = None\<rparr>"

definition unauthorized :: response where
  "unauthorized = \<lparr>resp_status = 401, resp_statusText = ''Unauthorized'',
                   resp_text = ''{}'', resp_json = Some (JObj [])\<rparr>"



definition login_ok :: response where
  "login_ok =
     \<lparr>resp_status = 200, resp_statusText = ''OK'', resp_text = ''{...}'',
      resp_json = Some (JObj [(''access_token'', JStr ''jwt.abc''),
                              (''token_type'', JStr ''bearer''),
                              (''user'', JObj [(''id'', JNum 7),
                                               (''email'', JStr ''ann@example.com''),
                                               (''name'', JStr ''Ann''),
                                               (''role'', JStr ''mechanic''),
                                               (''is_active'', JBool True),
                                               (''created_at'', JStr ''2023-01-01T00:00:00Z'')])])\<rparr>"


definition proxy_env :: env where
  "proxy_env =
     \<lparr>platform_os = Android, CLOUD_BACKEND_URL = placeholder_url,
      net = (\<lambda>log r.
               if req_url r = ''http://10.0.2.2:8000/api/health'' then Answer 50 ok_html
               else Answer 50 ok_json),
      netInfo_isConnected = Some True, sqlite_opens = True, sqlite_runs = True,
      date_now = ''1700000000000'', random36 = ''k3j9x0q1z'',
      iso_now = ''2023-11-14T22:13:20.000Z'', JSON_stringify = (\<lambda>j. ''{}'')\<rparr>"

definition backend_env :: env where
  "backend_env =
     \<lparr>platform_os = Android, CLOUD_BACKEND_URL = placeholder_url,
      net = (\<lambda>log r.
               if req_url r = ''http://10.0.2.2:8000/api/health'' then Answer 50 ok_json
               else if req_url r = ''http://10.0.2.2:8000/api/feedback/my''
                 then Answer 30 unauthorized
               else NoAnswer),
      netInfo_isConnected = Some True, sqlite_opens = True, sqlite_runs = True,
      date_now = ''1700000000000'', random36 = ''k3j9x0q1z'',
      iso_now = ''2023-11-14T22:13:20.000Z'', JSON_stringify = (\<lambda>j. ''{}'')\<rparr>"



definition probed_world :: world where
  "probed_world =
     fresh_world\<lparr>requests := [healthRequest ''http://localhost:8000/api'',
                               healthRequest ''http://10.0.2.2:8000/api''],
                  DYNAMIC_API_BASE_URL := Some ''http://10.0.2.2:8000/api''\<rparr>"

definition offline_env :: env where
  "offline_env = backend_env\<lparr>netInfo_isConnected := Some False\<rparr>"

definition broken_env :: env where
  "broken_env = offline_env\<lparr>sqlite_opens := False, sqlite_runs := False\<rparr>"

definition ann_row :: local_row where
  "ann_row =
     \<lparr>row_id = 7, row_email = ''ann@example.com'', row_name = ''Ann'',
      row_password = ''secret1'', row_role = ''mechanic'', row_is_active = 1,
      row_created_at = ''2023-01-01T00:00:00Z'', row_last_synced = ''2023-06-01T00:00:00Z''\<rparr>"

definition cached_world :: world where
  "cached_world = fresh_world\<lparr>users := [ann_row]\<rparr>"

definition login_env :: env where
  "login_env =
     backend_env\<lparr>net := (\<lambda>log r.
        if req_url r = ''http://localhost:8000/api/auth/login'' then Answer 120 login_ok
        else NoAnswer)\<rparr>"

definition ann :: User where
  "ann = user_of_row ann_row"

definition mechanic_world :: world where
  "mechanic_world = fresh_world\<lparr>ctx_user := Some ann, ctx_token := Some ''jwt.abc''\<rparr>"

definition new_phone :: MechanicInfo where
  "new_phone = \<lparr>business_name = None, phone = Some ''+237 600 000 000'', specialization = None,
                experience_years = None, address = None\<rparr>"

definition cloud_web_env :: env where
  "cloud_web_env =
     backend_env\<lparr>platform_os := Web,
                  CLOUD_BACKEND_URL := ''https://carfirstaid.onrender.com/api''\<rparr>"

section \<open>Discovery\<close>



lemma testConnection_result:
  "testConnection e u w =
     (if never_settles e (requests w) (healthRequest u) then
        (Pending, w\<lparr>requests := requests w @ [healthRequest u],
                    uncaught := uncaught w @ [RangeError]\<rparr>)
      else
        (Returns (answers_ok e (requests w) (healthRequest u)),
         w\<lparr>requests := requests w @ [healthRequest u]\<rparr>))"
  by (auto simp: testConnection_def fetch_def answers_ok_def never_settles_def
        healthRequest_def aborted_def resp_ok_def valid_status_def Let_def
        split: reply.splits)








lemma tryConnections_no_throw: "fst (tryConnections e urls w) \<noteq> Throws x"
  by (induction urls arbitrary: w) (simp_all add: testConnection_result)

lemma tryConnections_shape:
  "\<exists>n un. snd (tryConnections e urls w) =
            w\<lparr>requests := requests w @ map healthRequest (take n urls), uncaught := un\<rparr> \<and>
          (\<forall>r. fst (tryConnections e urls w) = Returns r \<longrightarrow>
             un = uncaught w \<and> (\<forall>u. r = Some u \<longrightarrow> u \<in> set urls))"
proof (induction urls arbitrary: w)
  case Nil
  have "w = w\<lparr>requests := requests w @ map healthRequest (take 0 []), uncaught := uncaught w\<rparr>"
    by simp
  then show ?case by (intro exI [of _ 0] exI [of _ "uncaught w"]) simp
next
  case (Cons u us)
  let ?w' = "w\<lparr>requests := requests w @ [healthRequest u]\<rparr>"
  show ?case
  proof (cases "never_settles e (requests w) (healthRequest u)")
    case True
    then show ?thesis
      by (intro exI [of _ 1] exI [of _ "uncaught w @ [RangeError]"])
         (simp add: testConnection_result)
  next
    case settles: False
    show ?thesis
    proof (cases "answers_ok e (requests w) (healthRequest u)")
      case True
      with settles show ?thesis
        by (intro exI [of _ 1] exI [of _ "uncaught w"]) (simp add: testConnection_result)
    next
      case False
      from Cons.IH [of ?w'] obtain n un where
        sh: "snd (tryConnections e us ?w') =
               ?w'\<lparr>requests := requests ?w' @ map healthRequest (take n us), uncaught := un\<rparr>"
        and rt: "\<forall>r. fst (tryConnections e us ?w') = Returns r \<longrightarrow>
                   un = uncaught ?w' \<and> (\<forall>x. r = Some x \<longrightarrow> x \<in> set us)"
        by blast
      from False settles have step: "tryConnections e (u # us) w = tryConnections e us ?w'"
        by (simp add: testConnection_result)
      from sh rt show ?thesis
        unfolding step
        by (intro exI [of _ "Suc n"] exI [of _ un]) auto
    qed
  qed
qed












section \<open>Candidate lists\<close>

lemma local_simps:
  "local_address ''http://localhost:8000/api''"
  "local_address ''http://127.0.0.1:8000/api''"
  "local_address ''http://10.0.2.2:8000/api''"
  by (simp_all add: local_address_def url_host_def)

lemma lan_simps:
  "private_lan_address ''http://192.168.1.100:8000/api''"
  "list_all private_lan_address machine_urls"
  by (simp_all add: private_lan_address_def url_host_def machine_urls_def)

text \<open>
  Claim C8, as the code has it. The list of \<open>findWorkingConnection\<close> is the cloud URL
  (when configured), then loopback and emulator addresses, then one private address, the
  last two groups being present on Android and iOS only. The list of
  \<open>getPossibleBackendUrls\<close> never holds the cloud URL: it is the loopback and emulator
  addresses of the platform (none for a platform other than web, Android and iOS), then the
  four private addresses of \<open>machineIPs\<close>.
\<close>

theorem candidate_order:
  "(\<exists>locals lans.
      possibleUrls e = cloud_part e @ locals @ lans \<and>
      list_all local_address locals \<and> list_all private_lan_address lans \<and>
      (if platform_os e = Android \<or> platform_os e = IOS
       then locals \<noteq> [] \<and> lans = [''http://192.168.1.100:8000/api'']
       else locals = [] \<and> lans = [])) \<and>
   (\<exists>locals.
      getPossibleBackendUrls e = locals @ machine_urls \<and>
      list_all local_address locals \<and> list_all private_lan_address machine_urls \<and>
      (if platform_os e = Web \<or> platform_os e = Android \<or> platform_os e = IOS
       then locals \<noteq> [] else locals = []))"
proof
  show "\<exists>locals lans.
      possibleUrls e = cloud_part e @ locals @ lans \<and>
      list_all local_address locals \<and> list_all private_lan_address lans \<and>
      (if platform_os e = Android \<or> platform_os e = IOS
       then locals \<noteq> [] \<and> lans = [''http://192.168.1.100:8000/api'']
       else locals = [] \<and> lans = [])"
  proof (cases "platform_os e = Android")
    case True
    then show ?thesis
      by (intro exI [of _ "[''http://localhost:8000/api'', ''http://10.0.2.2:8000/api'',
             ''http://127.0.0.1:8000/api'']"] exI [of _ "[''http://192.168.1.100:8000/api'']"])
         (simp add: possibleUrls_def cloud_part_def local_simps lan_simps)
  next
    case notA: False
    show ?thesis
    proof (cases "platform_os e = IOS")
      case True
      then show ?thesis
        by (intro exI [of _ "[''http://localhost:8000/api'', ''http://127.0.0.1:8000/api'']"]
              exI [of _ "[''http://192.168.1.100:8000/api'']"])
           (simp add: possibleUrls_def cloud_part_def local_simps lan_simps)
    next
      case False
      with notA show ?thesis
        by (intro exI [of _ "[]"]) (simp add: possibleUrls_def cloud_part_def)
    qed
  qed
next
  have m: "map (\<lambda>ip. ''http://'' @ ip @ '':8000/api'') machineIPs = machine_urls"
    by (simp add: machineIPs_def machine_urls_def)
  show "\<exists>locals.
      getPossibleBackendUrls e = locals @ machine_urls \<and>
      list_all local_address locals \<and> list_all private_lan_address machine_urls \<and>
      (if platform_os e = Web \<or> platform_os e = Android \<or> platform_os e = IOS
       then locals \<noteq> [] else locals = [])"
    unfolding getPossibleBackendUrls_def m
    by (cases "platform_os e") (simp_all add: local_simps lan_simps)
qed

theorem candidate_order_witness:
  "possibleUrls cloud_web_env =
     cloud_part cloud_web_env @ [] @ [] \<and>
   cloud_part cloud_web_env = [''https://carfirstaid.onrender.com/api''] \<and>
   possibleUrls backend_env =
     cloud_part backend_env @
     [''http://localhost:8000/api'', ''http://10.0.2.2:8000/api'', ''http://127.0.0.1:8000/api''] @
     [''http://192.168.1.100:8000/api''] \<and>
   cloud_part backend_env = [] \<and>
   getPossibleBackendUrls backend_env =
     [''http://10.0.2.2:8000/api'', ''http://localhost:8000/api'', ''http://127.0.0.1:8000/api''] @
     machine_urls"
  using candidate_order [of cloud_web_env] candidate_order [of backend_env]
  by (simp add: possibleUrls_def getPossibleBackendUrls_def cloud_part_def cloud_web_env_def
        backend_env_def placeholder_url_def machineIPs_def machine_urls_def)

text \<open>
  Claim C8 as stated fails: on the web platform the list of \<open>findWorkingConnection\<close>
  holds the cloud URL alone, or nothing, and with a cloud URL configured the list of
  \<open>getPossibleBackendUrls\<close> does not start with it.
\<close>

theorem candidate_order_counterexample:
  "CLOUD_BACKEND_URL cloud_web_env \<noteq> placeholder_url \<and>
   possibleUrls cloud_web_env = [''https://carfirstaid.onrender.com/api''] \<and>
   possibleUrls (cloud_web_env\<lparr>CLOUD_BACKEND_URL := placeholder_url\<rparr>) = [] \<and>
   getPossibleBackendUrls cloud_web_env =
     [''http://localhost:8000/api'', ''http://127.0.0.1:8000/api'',
      ''http://192.168.1.100:8000/api'', ''http://192.168.0.100:8000/api'',
      ''http://192.168.114.97:8000/api'', ''http://10.0.0.100:8000/api''] \<and>
   hd (getPossibleBackendUrls cloud_web_env) \<noteq> CLOUD_BACKEND_URL cloud_web_env"
  by (simp add: possibleUrls_def getPossibleBackendUrls_def cloud_web_env_def
        backend_env_def placeholder_url_def machineIPs_def)

section \<open>The cached base URL\<close>

lemma possibleUrls_nonempty:
  "CLOUD_BACKEND_URL e \<noteq> [] \<Longrightarrow> u \<in> set (possibleUrls e) \<Longrightarrow> u \<noteq> []"
  by (auto simp: possibleUrls_def split: if_splits)

lemma getApiBaseUrl_nonempty: "CLOUD_BACKEND_URL e \<noteq> [] \<Longrightarrow> getApiBaseUrl e \<noteq> []"
  by (simp add: getApiBaseUrl_def)

lemma discoverApiUrl_shape:
  "\<exists>n un d. snd (discoverApiUrl e w) =
              w\<lparr>requests := requests w @ map healthRequest (take n (possibleUrls e)),
                uncaught := un, DYNAMIC_API_BASE_URL := d\<rparr> \<and>
            (\<forall>x. fst (discoverApiUrl e w) \<noteq> Throws x) \<and>
            (\<forall>u. fst (discoverApiUrl e w) = Returns u \<longrightarrow>
               un = uncaught w \<and> d = Some u \<and>
               u = (case fst (findWorkingConnection e w) of
                      Returns (Some found) \<Rightarrow> if found \<noteq> [] then found else getApiBaseUrl e
                    | other \<Rightarrow> getApiBaseUrl e) \<and>
               (CLOUD_BACKEND_URL e \<noteq> [] \<longrightarrow> u \<noteq> []))"
proof -
  obtain n un where sh: "snd (tryConnections e (possibleUrls e) w) =
      w\<lparr>requests := requests w @ map healthRequest (take n (possibleUrls e)), uncaught := un\<rparr>"
    and rt: "\<forall>r. fst (tryConnections e (possibleUrls e) w) = Returns r \<longrightarrow>
               un = uncaught w \<and> (\<forall>u. r = Some u \<longrightarrow> u \<in> set (possibleUrls e))"
    using tryConnections_shape by blast
  obtain r w' where rw: "tryConnections e (possibleUrls e) w = (r, w')"
    by (cases "tryConnections e (possibleUrls e) w")
  with sh have w': "w' = w\<lparr>requests := requests w @ map healthRequest (take n (possibleUrls e)),
      uncaught := un\<rparr>" by simp
  have nt: "\<forall>x. r \<noteq> Throws x"
    using tryConnections_no_throw [of e "possibleUrls e" w] rw by simp
  show ?thesis
  proof (cases r)
    case (Returns found)
    with rt rw have un: "un = uncaught w"
      and mem: "\<forall>u. found = Some u \<longrightarrow> u \<in> set (possibleUrls e)" by auto
    show ?thesis
    proof (cases found)
      case None
      with Returns rw w' un show ?thesis
        by (intro exI [of _ n] exI [of _ "uncaught w"] exI [of _ "Some (getApiBaseUrl e)"])
           (simp add: discoverApiUrl_def findWorkingConnection_def useFallback_def Let_def
              getApiBaseUrl_nonempty)
    next
      case (Some u)
      with mem have "CLOUD_BACKEND_URL e \<noteq> [] \<longrightarrow> u \<noteq> []"
        by (simp add: possibleUrls_nonempty)
      with Some Returns rw w' un show ?thesis
        by (intro exI [of _ n] exI [of _ "uncaught w"]
              exI [of _ "Some (if u \<noteq> [] then u else getApiBaseUrl e)"])
           (simp add: discoverApiUrl_def findWorkingConnection_def useFallback_def Let_def
              getApiBaseUrl_nonempty)
    qed
  next
    case (Throws x)
    with nt show ?thesis by simp
  next
    case Pending
    with rw w' show ?thesis
      by (intro exI [of _ n] exI [of _ un] exI [of _ "DYNAMIC_API_BASE_URL w"])
         (simp add: discoverApiUrl_def findWorkingConnection_def)
  qed
qed

lemma findWorkingApiUrl_shape:
  "\<exists>n un d. snd (findWorkingApiUrl e w) =
              w\<lparr>requests := requests w @ map healthRequest (take n (possibleUrls e)),
                uncaught := un, DYNAMIC_API_BASE_URL := d\<rparr> \<and>
            (\<forall>x. fst (findWorkingApiUrl e w) \<noteq> Throws x) \<and>
            (\<forall>u. fst (findWorkingApiUrl e w) = Returns u \<longrightarrow> un = uncaught w \<and> d = Some u)"
proof (cases "\<exists>c. DYNAMIC_API_BASE_URL w = Some c \<and> c \<noteq> []")
  case True
  then obtain c where c: "DYNAMIC_API_BASE_URL w = Some c" "c \<noteq> []" by blast
  then have "findWorkingApiUrl e w = (Returns c, w)"
    by (simp add: findWorkingApiUrl_def)
  with c show ?thesis
    by (intro exI [of _ 0] exI [of _ "uncaught w"] exI [of _ "Some c"]) simp
next
  case False
  then have "findWorkingApiUrl e w = discoverApiUrl e w"
    by (auto simp: findWorkingApiUrl_def split: option.splits)
  moreover obtain n un d where "snd (discoverApiUrl e w) =
              w\<lparr>requests := requests w @ map healthRequest (take n (possibleUrls e)),
                uncaught := un, DYNAMIC_API_BASE_URL := d\<rparr>"
    "\<forall>x. fst (discoverApiUrl e w) \<noteq> Throws x"
    "\<forall>u. fst (discoverApiUrl e w) = Returns u \<longrightarrow> un = uncaught w \<and> d = Some u"
    using discoverApiUrl_shape [of e w] by blast
  ultimately show ?thesis
    by (intro exI [of _ n] exI [of _ un] exI [of _ d]) simp
qed

lemma upd_uncaught_same:
  "w\<lparr>requests := rs, uncaught := uncaught w, DYNAMIC_API_BASE_URL := d\<rparr> =
   w\<lparr>requests := rs, DYNAMIC_API_BASE_URL := d\<rparr>"
  by simp

lemma findWorkingApiUrl_returns:
  assumes "findWorkingApiUrl e w = (Returns u, w1)"
  shows "\<exists>n. w1 = w\<lparr>requests := requests w @ map healthRequest (take n (possibleUrls e)),
                    DYNAMIC_API_BASE_URL := Some u\<rparr>"
proof -
  obtain n un d where sh: "snd (findWorkingApiUrl e w) =
              w\<lparr>requests := requests w @ map healthRequest (take n (possibleUrls e)),
                uncaught := un, DYNAMIC_API_BASE_URL := d\<rparr>"
    and nt: "\<forall>x. fst (findWorkingApiUrl e w) \<noteq> Throws x"
    and rt: "\<forall>u. fst (findWorkingApiUrl e w) = Returns u \<longrightarrow> un = uncaught w \<and> d = Some u"
    using findWorkingApiUrl_shape [of e w] by (elim exE conjE) (rule that)
  have f: "fst (findWorkingApiUrl e w) = Returns u" and s: "snd (findWorkingApiUrl e w) = w1"
    by (simp_all add: assms)
  from rt f have un: "un = uncaught w" and d: "d = Some u" by simp_all
  from sh have "w1 = w\<lparr>requests := requests w @ map healthRequest (take n (possibleUrls e)),
                uncaught := uncaught w, DYNAMIC_API_BASE_URL := Some u\<rparr>"
    by (simp only: s un d)
  then have "w1 = w\<lparr>requests := requests w @ map healthRequest (take n (possibleUrls e)),
                    DYNAMIC_API_BASE_URL := Some u\<rparr>"
    by (simp only: upd_uncaught_same)
  then show ?thesis ..
qed

lemmas eval_defs = backend_env_def fresh_world_def probed_world_def possibleUrls_def
  placeholder_url_def findWorkingApiUrl_def discoverApiUrl_def findWorkingConnection_def
  testConnection_def fetch_def aborted_def valid_status_def healthRequest_def
  HEALTH_CHECK_TIMEOUT_def ok_json_def resp_ok_def Let_def useFallback_def getApiBaseUrl_def
  json_headers_def

lemma backend_discovery:
  "findWorkingApiUrl backend_env (fresh_world\<lparr>storage := st\<rparr>) =
     (Returns ''http://10.0.2.2:8000/api'', probed_world\<lparr>storage := st\<rparr>)"
  by (simp add: eval_defs)

text \<open>
  Claim C9. With a cloud URL that is not the empty string, a call of
  \<open>findWorkingApiUrl\<close> that has completed (it is not left pending by a probe that never
  settles) has returned a URL \<open>u\<close>, not thrown, and left \<open>u\<close> in
  \<open>DYNAMIC_API_BASE_URL\<close>; from a process start (nothing cached) \<open>u\<close> is the URL
  discovery found, or the default of \<open>getApiBaseUrl\<close> when it found none. Every later
  call, in any state that still holds this cached value and on any network, returns \<open>u\<close>
  and changes nothing: it sends no request.
\<close>

theorem findWorkingApiUrl_cached:
  assumes "CLOUD_BACKEND_URL e \<noteq> []"
    and "findWorkingApiUrl e w = (r, w1)"
    and "r \<noteq> Pending"
  shows "\<exists>u. r = Returns u \<and> DYNAMIC_API_BASE_URL w1 = Some u \<and>
             (DYNAMIC_API_BASE_URL w = None \<longrightarrow>
                u = (case fst (findWorkingConnection e w) of
                       Returns (Some found) \<Rightarrow> found
                     | other \<Rightarrow> getApiBaseUrl e)) \<and>
             (\<forall>e' w2. DYNAMIC_API_BASE_URL w2 = DYNAMIC_API_BASE_URL w1 \<longrightarrow>
                findWorkingApiUrl e' w2 = (Returns u, w2))"
proof (cases "\<exists>c. DYNAMIC_API_BASE_URL w = Some c \<and> c \<noteq> []")
  case True
  then obtain c where c: "DYNAMIC_API_BASE_URL w = Some c" "c \<noteq> []" by (elim exE conjE)
  with assms(2) have "r = Returns c" "w1 = w"
    by (simp_all add: findWorkingApiUrl_def)
  with c show ?thesis
    by (simp add: findWorkingApiUrl_def)
next
  case False
  then have d: "findWorkingApiUrl e w = discoverApiUrl e w"
    by (auto simp: findWorkingApiUrl_def split: option.splits)
  obtain n un dd where sh: "snd (discoverApiUrl e w) =
              w\<lparr>requests := requests w @ map healthRequest (take n (possibleUrls e)),
                uncaught := un, DYNAMIC_API_BASE_URL := dd\<rparr>"
    and nt: "\<forall>x. fst (discoverApiUrl e w) \<noteq> Throws x"
    and rt: "\<forall>u. fst (discoverApiUrl e w) = Returns u \<longrightarrow>
               un = uncaught w \<and> dd = Some u \<and>
               u = (case fst (findWorkingConnection e w) of
                      Returns (Some found) \<Rightarrow> if found \<noteq> [] then found else getApiBaseUrl e
                    | other \<Rightarrow> getApiBaseUrl e) \<and>
               (CLOUD_BACKEND_URL e \<noteq> [] \<longrightarrow> u \<noteq> [])"
    using discoverApiUrl_shape [of e w] by (elim exE conjE) (rule that)
  have dr: "discoverApiUrl e w = (r, w1)"
    unfolding d [symmetric] by (rule assms(2))
  have fr: "fst (discoverApiUrl e w) = r" and w1: "snd (discoverApiUrl e w) = w1"
    by (simp_all add: dr)
  from nt fr have "\<forall>x. r \<noteq> Throws x" by simp
  with assms(3) obtain u where u: "r = Returns u" by (cases r) simp_all
  with fr have f: "fst (discoverApiUrl e w) = Returns u" by simp
  note facts = rt [rule_format, OF f]
  have dd: "dd = Some u" using facts by (elim conjE)
  have val: "u = (case fst (findWorkingConnection e w) of
                      Returns (Some found) \<Rightarrow> if found \<noteq> [] then found else getApiBaseUrl e
                    | other \<Rightarrow> getApiBaseUrl e)"
    using facts by (elim conjE)
  have "CLOUD_BACKEND_URL e \<noteq> [] \<longrightarrow> u \<noteq> []" using facts by (elim conjE)
  then have ne: "u \<noteq> []" using assms(1) by (rule mp)
  have val': "u = (case fst (findWorkingConnection e w) of
                     Returns (Some found) \<Rightarrow> found
                   | other \<Rightarrow> getApiBaseUrl e)"
  proof (cases "fst (findWorkingConnection e w)")
    case (Returns found)
    show ?thesis
    proof (cases found)
      case None
      with Returns val show ?thesis by simp
    next
      case (Some x)
      obtain n' un' where m: "\<forall>r. fst (tryConnections e (possibleUrls e) w) = Returns r \<longrightarrow>
             un' = uncaught w \<and> (\<forall>u. r = Some u \<longrightarrow> u \<in> set (possibleUrls e))"
        using tryConnections_shape [of e "possibleUrls e" w] by (elim exE conjE) (rule that)
      from Returns Some have "fst (tryConnections e (possibleUrls e) w) = Returns (Some x)"
        by (simp add: findWorkingConnection_def)
      with m have "x \<in> set (possibleUrls e)" by simp
      with assms(1) have "x \<noteq> []" by (simp add: possibleUrls_nonempty)
      with Returns Some val show ?thesis by simp
    qed
  next
    case (Throws x)
    with val show ?thesis by simp
  next
    case Pending
    with val show ?thesis by simp
  qed
  have dyn: "DYNAMIC_API_BASE_URL w1 = Some u"
    using sh unfolding w1 dd by simp
  have later: "\<forall>e' w2. DYNAMIC_API_BASE_URL w2 = DYNAMIC_API_BASE_URL w1 \<longrightarrow>
                findWorkingApiUrl e' w2 = (Returns u, w2)"
    using ne by (simp add: dyn findWorkingApiUrl_def)
  from u dyn val' later show ?thesis by blast
qed

theorem findWorkingApiUrl_cached_witness:
  "CLOUD_BACKEND_URL backend_env \<noteq> [] \<and>
   findWorkingApiUrl backend_env fresh_world =
     (Returns ''http://10.0.2.2:8000/api'', probed_world) \<and>
   DYNAMIC_API_BASE_URL fresh_world = None \<and>
   fst (findWorkingConnection backend_env fresh_world) = Returns (Some ''http://10.0.2.2:8000/api'') \<and>
   findWorkingApiUrl proxy_env probed_world =
     (Returns ''http://10.0.2.2:8000/api'', probed_world) \<and>
   findWorkingApiUrl proxy_env (probed_world\<lparr>requests := []\<rparr>) =
     (Returns ''http://10.0.2.2:8000/api'', probed_world\<lparr>requests := []\<rparr>)"
proof -
  have h0: "CLOUD_BACKEND_URL backend_env \<noteq> []"
    by (simp add: backend_env_def placeholder_url_def)
  have h1: "findWorkingApiUrl backend_env fresh_world =
     (Returns ''http://10.0.2.2:8000/api'', probed_world)"
    using backend_discovery [of Map.empty] by (simp add: fresh_world_def probed_world_def)
  have h2: "fst (findWorkingConnection backend_env fresh_world) =
      Returns (Some ''http://10.0.2.2:8000/api'')"
    by (simp add: eval_defs)
  have h3: "Returns ''http://10.0.2.2:8000/api'' \<noteq> (Pending :: string outcome)" by simp
  from findWorkingApiUrl_cached [OF h0 h1 h3] h0 h1 h2
  show ?thesis
    by (auto simp: fresh_world_def probed_world_def)
qed

section \<open>The dispatcher\<close>

lemma keys_spread: "fst ` set (spread base extra) = fst ` set base \<union> fst ` set extra"
  unfolding spread_def
proof (induction extra arbitrary: base)
  case Nil
  then show ?case by simp
next
  case (Cons kv extra)
  obtain k v where kv: "kv = (k, v)" by (cases kv)
  show ?case by (auto simp: kv Cons.IH dom_update)
qed

lemma carries_iff:
  "carries_authorization r = (\<exists>k \<in> fst ` set (req_headers r). is_authorization k)"
  by (auto simp: carries_authorization_def list_ex_iff) force

lemma probe_no_authorization: "\<not> carries_authorization (healthRequest u)"
  by (simp add: carries_authorization_def healthRequest_def json_headers_def
        is_authorization_def Let_def)

lemma apiRequest_authorization:
  "carries_authorization (apiRequest base None endpoint options) =
     list_ex (\<lambda>(k, v). is_authorization k) (opt_headers options)"
proof -
  have "\<not> is_authorization ''Content-Type''"
    by (simp add: is_authorization_def Let_def)
  then show ?thesis
    by (auto simp: carries_iff apiRequest_def keys_spread auth_header_def list_ex_iff) force
qed

lemma apiCall_after_discovery:
  assumes "findWorkingApiUrl e w = (Returns base, w1)"
  shows "\<exists>n. w1 = w\<lparr>requests := requests w @ map healthRequest (take n (possibleUrls e)),
                    DYNAMIC_API_BASE_URL := Some base\<rparr> \<and>
             requests (snd (apiCall e endpoint options w)) =
               requests w @ map healthRequest (take n (possibleUrls e)) @
               [apiRequest base (storage w ''authToken'') endpoint options]"
proof -
  obtain n where n: "w1 = w\<lparr>requests := requests w @ map healthRequest (take n (possibleUrls e)),
                    DYNAMIC_API_BASE_URL := Some base\<rparr>"
    using findWorkingApiUrl_returns [OF assms] by (elim exE)
  have "requests (snd (apiCall e endpoint options w)) =
          requests w @ map healthRequest (take n (possibleUrls e)) @
          [apiRequest base (storage w ''authToken'') endpoint options]"
    by (simp add: assms n apiCall_def getWorkingApiBaseUrl_def getAuthToken_def getItem_def
        fetch_def removeItem_def Let_def split: reply.splits option.splits)
  with n show ?thesis by (intro exI [of _ n] conjI)
qed

lemma apiCall_requests:
  "\<exists>n tail. requests (snd (apiCall e endpoint options w)) =
               requests w @ map healthRequest (take n (possibleUrls e)) @ tail \<and>
             (tail = [] \<or>
              (\<exists>b. tail = [apiRequest b (storage w ''authToken'') endpoint options]))"
proof -
  obtain n un d where sh: "snd (findWorkingApiUrl e w) =
              w\<lparr>requests := requests w @ map healthRequest (take n (possibleUrls e)),
                uncaught := un, DYNAMIC_API_BASE_URL := d\<rparr>"
    and nt: "\<forall>x. fst (findWorkingApiUrl e w) \<noteq> Throws x"
    using findWorkingApiUrl_shape [of e w] by (elim exE conjE) (rule that)
  obtain r w1 where rw: "findWorkingApiUrl e w = (r, w1)"
    by (cases "findWorkingApiUrl e w")
  with sh have w1: "requests w1 = requests w @ map healthRequest (take n (possibleUrls e))"
    by simp
  show ?thesis
  proof (cases r)
    case (Returns b)
    with rw have fb: "findWorkingApiUrl e w = (Returns b, w1)" by simp
    obtain m where
      "requests (snd (apiCall e endpoint options w)) =
         requests w @ map healthRequest (take m (possibleUrls e)) @
         [apiRequest b (storage w ''authToken'') endpoint options]"
      using apiCall_after_discovery [OF fb, of endpoint options]
      by (elim exE conjE) (rule that)
    then show ?thesis
      by (intro exI [of _ m]
            exI [of _ "[apiRequest b (storage w ''authToken'') endpoint options]"]) blast
  next
    case (Throws x)
    with nt rw show ?thesis by simp
  next
    case Pending
    with rw w1 have "requests (snd (apiCall e endpoint options w)) =
        requests w @ map healthRequest (take n (possibleUrls e)) @ []"
      by (simp add: apiCall_def getWorkingApiBaseUrl_def)
    then show ?thesis
      by (intro exI [of _ n] exI [of _ "[]"]) simp
  qed
qed

text \<open>
  Claim C3. When the reply to the dispatched request has status 401, \<open>apiCall\<close> throws
  \<open>Error("Not authenticated")\<close>, and the calls it made on AsyncStorage are one
  \<open>getItem\<close> and one \<open>removeItem\<close> of \<open>authToken\<close>, after which no token is stored.
  \<open>apiCall\<close> is private to the api module and none of its call sites passes headers; in
  such a call, made while no token is stored, no request sent (health probes and the
  dispatched request) carries an Authorization header.
\<close>

theorem apiCall_unauthorized:
  assumes "findWorkingApiUrl e w = (Returns base, w1)"
    and "net e (requests w1) (apiRequest base (storage w ''authToken'') endpoint options) =
           Answer ms resp"
    and "resp_status resp = 401"
    and "case opt_signal options of None \<Rightarrow> True | Some t \<Rightarrow> ms < t"
  shows "apiCall e endpoint options w =
           (Throws (Error ''Not authenticated''),
            w1\<lparr>requests := requests w1 @
                  [apiRequest base (storage w ''authToken'') endpoint options],
               storage := (storage w)(''authToken'' := None),
               storage_calls := storage_calls w @
                  [GetItem ''authToken'', RemoveItem ''authToken'']\<rparr>) \<and>
         (storage v ''authToken'' = None \<and> opt_headers options' = [] \<longrightarrow>
            list_all (\<lambda>r. \<not> carries_authorization r)
              (new_requests v (snd (apiCall e' endpoint' options' v))))"
proof
  obtain n where eq: "w1 = w\<lparr>requests := requests w @ map healthRequest (take n (possibleUrls e)),
                    DYNAMIC_API_BASE_URL := Some base\<rparr>"
    using findWorkingApiUrl_returns [OF assms(1)] by (elim exE)
  have a1: "findWorkingApiUrl e w =
      (Returns base, w\<lparr>requests := requests w @ map healthRequest (take n (possibleUrls e)),
                       DYNAMIC_API_BASE_URL := Some base\<rparr>)"
    using assms(1) unfolding eq .
  have nok: "\<not> resp_ok resp" and valid: "valid_status resp"
    using assms(3) by (simp_all add: resp_ok_def valid_status_def)
  from assms(2,4) show "apiCall e endpoint options w =
           (Throws (Error ''Not authenticated''),
            w1\<lparr>requests := requests w1 @
                  [apiRequest base (storage w ''authToken'') endpoint options],
               storage := (storage w)(''authToken'' := None),
               storage_calls := storage_calls w @
                  [GetItem ''authToken'', RemoveItem ''authToken'']\<rparr>)"
    unfolding eq
    by (simp add: a1 apiCall_def getWorkingApiBaseUrl_def getAuthToken_def getItem_def
        fetch_def aborted_def removeItem_def Let_def nok valid assms(3) apiRequest_def
        split: option.splits)
next
  show "storage v ''authToken'' = None \<and> opt_headers options' = [] \<longrightarrow>
            list_all (\<lambda>r. \<not> carries_authorization r)
              (new_requests v (snd (apiCall e' endpoint' options' v)))"
  proof
    assume a: "storage v ''authToken'' = None \<and> opt_headers options' = []"
    obtain n tail where rq: "requests (snd (apiCall e' endpoint' options' v)) =
               requests v @ map healthRequest (take n (possibleUrls e')) @ tail"
      and tl: "tail = [] \<or>
               (\<exists>b. tail = [apiRequest b (storage v ''authToken'') endpoint' options'])"
      using apiCall_requests [of e' endpoint' options' v] by (elim exE conjE) (rule that)
    from a have "\<And>b. \<not> carries_authorization (apiRequest b (storage v ''authToken'')
        endpoint' options')"
      by (simp add: apiRequest_authorization)
    with tl have "list_all (\<lambda>r. \<not> carries_authorization r) tail"
      by auto
    then show "list_all (\<lambda>r. \<not> carries_authorization r)
              (new_requests v (snd (apiCall e' endpoint' options' v)))"
      by (auto simp: new_requests_def rq list_all_iff probe_no_authorization)
  qed
qed

theorem apiCall_unauthorized_witness:
  "findWorkingApiUrl backend_env (fresh_world\<lparr>storage := [''authToken'' \<mapsto> ''tok123'']\<rparr>) =
     (Returns ''http://10.0.2.2:8000/api'',
      probed_world\<lparr>storage := [''authToken'' \<mapsto> ''tok123'']\<rparr>) \<and>
   apiCall backend_env ''/feedback/my'' no_options
       (fresh_world\<lparr>storage := [''authToken'' \<mapsto> ''tok123'']\<rparr>) =
     (Throws (Error ''Not authenticated''),
      probed_world
        \<lparr>requests := requests probed_world @
           [apiRequest ''http://10.0.2.2:8000/api'' (Some ''tok123'') ''/feedback/my'' no_options],
         storage := Map.empty,
         storage_calls := [GetItem ''authToken'', RemoveItem ''authToken'']\<rparr>) \<and>
   storage probed_world ''authToken'' = None \<and> opt_headers no_options = [] \<and>
   list_all (\<lambda>r. \<not> carries_authorization r)
     (new_requests probed_world
        (snd (apiCall backend_env ''/feedback/my'' no_options probed_world))) \<and>
   new_requests probed_world
     (snd (apiCall backend_env ''/feedback/my'' no_options probed_world)) =
     [\<lparr>req_url = ''http://10.0.2.2:8000/api/feedback/my'', req_method = ''GET'',
       req_headers = [(''Content-Type'', ''application/json'')],
       req_body = NoBody, req_timeout = None\<rparr>]"
proof -
  let ?w = "fresh_world\<lparr>storage := [''authToken'' \<mapsto> ''tok123'']\<rparr>"
  have h1: "findWorkingApiUrl backend_env ?w =
     (Returns ''http://10.0.2.2:8000/api'',
      probed_world\<lparr>storage := [''authToken'' \<mapsto> ''tok123'']\<rparr>)"
    by (rule backend_discovery)
  have h2: "net backend_env
      (requests (probed_world\<lparr>storage := [''authToken'' \<mapsto> ''tok123'']\<rparr>))
      (apiRequest ''http://10.0.2.2:8000/api'' (storage ?w ''authToken'') ''/feedback/my''
         no_options) = Answer 30 unauthorized"
    by (simp add: backend_env_def apiRequest_def)
  have h3: "resp_status unauthorized = 401" by (simp add: unauthorized_def)
  have h4: "case opt_signal no_options of None \<Rightarrow> True | Some t \<Rightarrow> 30 < t"
    by (simp add: no_options_def)
  have h5: "storage probed_world ''authToken'' = None \<and> opt_headers no_options = []"
    by (simp add: probed_world_def fresh_world_def no_options_def)
  have h6: "new_requests probed_world
     (snd (apiCall backend_env ''/feedback/my'' no_options probed_world)) =
     [\<lparr>req_url = ''http://10.0.2.2:8000/api/feedback/my'', req_method = ''GET'',
       req_headers = [(''Content-Type'', ''application/json'')],
       req_body = NoBody, req_timeout = None\<rparr>]"
    by (simp add: eval_defs apiCall_def getWorkingApiBaseUrl_def getAuthToken_def getItem_def
        removeItem_def apiRequest_def no_options_def spread_def auth_header_def
        method_of_def unauthorized_def new_requests_def)
  from apiCall_unauthorized [OF h1 h2 h3 h4, of probed_world no_options
      backend_env "''/feedback/my''"] h1 h5 h6
  show ?thesis
    by (simp add: fresh_world_def probed_world_def)
qed

lemma api_error_kinds:
  "api_error resp \<noteq> NetworkRequestFailed \<and> api_error resp \<noteq> AbortError"
proof -
  have "\<And>j. get_prop j ''detail'' = Throws x \<Longrightarrow>
          x = Exn ''TypeError'' ''Cannot read property detail of null''" for x
    by (case_tac j) simp_all
  then show ?thesis
    by (auto simp: api_error_def Let_def Error_def NetworkRequestFailed_def AbortError_def
          split: option.splits outcome.splits)
qed

text \<open>
  Claim C5, as the code has it. When the dispatched \<open>fetch\<close> throws, \<open>apiCall\<close> throws
  the same exception, which is neither \<open>Error("Not authenticated")\<close> nor the error built
  from a reply, and storage is only read. The requests of one call are the health probes of
  distinct list positions, in order, followed by the one dispatched request: nothing is
  sent twice. Each probe carries a timer of 30000 ms; the dispatched request carries the
  caller's signal and no timer of its own.
\<close>

theorem apiCall_transport_failure:
  assumes "findWorkingApiUrl e w = (Returns base, w1)"
  shows "(transport_failure e (requests w1)
            (apiRequest base (storage w ''authToken'') endpoint options) = Some x \<longrightarrow>
            apiCall e endpoint options w =
              (Throws x,
               w1\<lparr>requests := requests w1 @
                     [apiRequest base (storage w ''authToken'') endpoint options],
                  storage_calls := storage_calls w @ [GetItem ''authToken'']\<rparr>) \<and>
            x \<noteq> Error ''Not authenticated'' \<and> x \<noteq> api_error resp) \<and>
         (\<exists>n. new_requests w (snd (apiCall e endpoint options w)) =
                map healthRequest (take n (possibleUrls e)) @
                [apiRequest base (storage w ''authToken'') endpoint options]) \<and>
         req_timeout (healthRequest u) = Some 30000 \<and>
         req_timeout (apiRequest base (storage w ''authToken'') endpoint options) =
           opt_signal options"
proof -
  let ?req = "apiRequest base (storage w ''authToken'') endpoint options"
  obtain n where eq: "w1 = w\<lparr>requests := requests w @ map healthRequest (take n (possibleUrls e)),
            DYNAMIC_API_BASE_URL := Some base\<rparr>"
    and rq: "requests (snd (apiCall e endpoint options w)) =
               requests w @ map healthRequest (take n (possibleUrls e)) @ [?req]"
    using apiCall_after_discovery [OF assms, of endpoint options]
    by (elim exE conjE) (rule that)
  have bn: "findWorkingApiUrl e w =
      (Returns base, w\<lparr>requests := requests w @ map healthRequest (take n (possibleUrls e)),
                       DYNAMIC_API_BASE_URL := Some base\<rparr>)"
    using assms unfolding eq .
  have A: "transport_failure e (requests w1) ?req = Some x \<longrightarrow>
            apiCall e endpoint options w =
              (Throws x, w1\<lparr>requests := requests w1 @ [?req],
                            storage_calls := storage_calls w @ [GetItem ''authToken'']\<rparr>)"
    unfolding eq
    by (auto simp: bn transport_failure_def apiCall_def getWorkingApiBaseUrl_def
          getAuthToken_def getItem_def fetch_def aborted_def Let_def
          split: reply.splits option.splits if_splits)
  have B: "transport_failure e (requests w1) ?req = Some x \<longrightarrow>
             x \<noteq> Error ''Not authenticated'' \<and> x \<noteq> api_error resp"
    using api_error_kinds [of resp]
    by (auto simp: transport_failure_def Error_def NetworkRequestFailed_def AbortError_def
          split: reply.splits option.splits if_splits)
  have C: "new_requests w (snd (apiCall e endpoint options w)) =
             map healthRequest (take n (possibleUrls e)) @ [?req]"
    by (simp add: new_requests_def rq)
  have D: "req_timeout (healthRequest u) = Some 30000"
    by (simp add: healthRequest_def HEALTH_CHECK_TIMEOUT_def)
  have E: "req_timeout ?req = opt_signal options"
    by (simp add: apiRequest_def)
  from A B C D E show ?thesis by blast
qed

theorem apiCall_transport_failure_witness:
  "findWorkingApiUrl backend_env fresh_world =
     (Returns ''http://10.0.2.2:8000/api'', probed_world) \<and>
   transport_failure backend_env (requests probed_world)
     (apiRequest ''http://10.0.2.2:8000/api'' None ''/diagnostics/''
        (no_options\<lparr>opt_signal := Some 8000\<rparr>)) = Some AbortError \<and>
   apiCall backend_env ''/diagnostics/'' (no_options\<lparr>opt_signal := Some 8000\<rparr>) fresh_world =
     (Throws AbortError,
      probed_world
        \<lparr>requests := requests probed_world @
           [apiRequest ''http://10.0.2.2:8000/api'' None ''/diagnostics/''
              (no_options\<lparr>opt_signal := Some 8000\<rparr>)],
         storage_calls := [GetItem ''authToken'']\<rparr>)"
proof -
  have h1: "findWorkingApiUrl backend_env fresh_world =
     (Returns ''http://10.0.2.2:8000/api'', probed_world)"
    using backend_discovery [of Map.empty] by (simp add: fresh_world_def probed_world_def)
  have h2: "transport_failure backend_env (requests probed_world)
     (apiRequest ''http://10.0.2.2:8000/api'' (storage fresh_world ''authToken'') ''/diagnostics/''
        (no_options\<lparr>opt_signal := Some 8000\<rparr>)) = Some AbortError"
    by (simp add: transport_failure_def backend_env_def apiRequest_def no_options_def)
  from apiCall_transport_failure [OF h1, of "''/diagnostics/''"
      "no_options\<lparr>opt_signal := Some 8000\<rparr>" AbortError] h1 h2
  show ?thesis
    by (simp add: fresh_world_def)
qed

text \<open>
  Claim C5 as stated fails: with the default options the dispatched request carries no
  timer, and against an endpoint that never answers the call neither fails nor returns.
\<close>

theorem apiCall_no_timeout_counterexample:
  "net backend_env (requests probed_world)
     (apiRequest ''http://10.0.2.2:8000/api'' None ''/diagnostics/'' no_options) = NoAnswer \<and>
   fst (apiCall backend_env ''/diagnostics/'' no_options fresh_world) = Pending \<and>
   new_requests fresh_world (snd (apiCall backend_env ''/diagnostics/'' no_options fresh_world)) =
     [healthRequest ''http://localhost:8000/api'', healthRequest ''http://10.0.2.2:8000/api'',
      \<lparr>req_url = ''http://10.0.2.2:8000/api/diagnostics/'', req_method = ''GET'',
       req_headers = [(''Content-Type'', ''application/json'')],
       req_body = NoBody, req_timeout = None\<rparr>]"
  by (simp add: eval_defs apiCall_def getWorkingApiBaseUrl_def getAuthToken_def getItem_def
        apiRequest_def no_options_def spread_def auth_header_def method_of_def
        new_requests_def)

section \<open>The session manager\<close>

lemma checkLocalUser_total:
  "\<exists>r. checkLocalUser e email password w =
          (Returns r, w\<lparr>db := db w \<or> sqlite_opens e\<rparr>) \<and>
        r = (if cache_readable e w
             then map_option user_of_row (find (matching email password) (users w))
             else None)"
  by (auto simp: checkLocalUser_def initDatabase_def getFirstAsync_def cache_readable_def
        matching_def Let_def split: option.splits)

lemma offlineSignIn_hit:
  assumes "cache_readable e w" and "find (matching email password) (users w) = Some row"
  shows "signIn e email password w =
     (if offline e then
       (Returns (),
        w\<lparr>db := db w \<or> sqlite_opens e, ctx_user := Some (user_of_row row),
          ctx_token := Some (offline_token e),
          storage := (storage w)(''authToken'' \<mapsto> offline_token e,
                       ''user'' \<mapsto> JSON_stringify e (json_of_user (user_of_row row))),
          storage_calls := storage_calls w @
            [SetItem ''authToken'' (offline_token e),
             SetItem ''user'' (JSON_stringify e (json_of_user (user_of_row row)))],
          isLoading := False\<rparr>)
      else signIn e email password w)"
proof -
  obtain r where r: "checkLocalUser e email password (w\<lparr>isLoading := True\<rparr>) =
      (Returns r, w\<lparr>isLoading := True\<rparr>\<lparr>db := db (w\<lparr>isLoading := True\<rparr>) \<or> sqlite_opens e\<rparr>)"
    "r = (if cache_readable e (w\<lparr>isLoading := True\<rparr>)
          then map_option user_of_row
                 (find (matching email password) (users (w\<lparr>isLoading := True\<rparr>)))
          else None)"
    using checkLocalUser_total by blast
  from assms r(2) have "r = Some (user_of_row row)"
    by (simp add: cache_readable_def)
  with r(1) show ?thesis
    by (simp add: signIn_def offlineSignIn_def andThen_def setItem_def Let_def offline_token_def)
qed

lemma offlineSignIn_miss:
  assumes "offline e"
    and "\<not> cache_readable e w \<or> find (matching email password) (users w) = None"
  shows "signIn e email password w =
           (Throws (Error offline_message),
            w\<lparr>db := db w \<or> sqlite_opens e, isLoading := False\<rparr>)"
proof -
  obtain r where r: "checkLocalUser e email password (w\<lparr>isLoading := True\<rparr>) =
      (Returns r, w\<lparr>isLoading := True\<rparr>\<lparr>db := db (w\<lparr>isLoading := True\<rparr>) \<or> sqlite_opens e\<rparr>)"
    "r = (if cache_readable e (w\<lparr>isLoading := True\<rparr>)
          then map_option user_of_row
                 (find (matching email password) (users (w\<lparr>isLoading := True\<rparr>)))
          else None)"
    using checkLocalUser_total by blast
  from assms(2) r(2) have "r = None"
    by (auto simp: cache_readable_def)
  with r(1) assms(1) show ?thesis
    by (simp add: signIn_def offlineSignIn_def andThen_def)
qed

text \<open>
  Claim C4. On an offline device whose cache is readable and holds a row with exactly the
  email and the password submitted, \<open>signIn\<close> returns; the context token and the stored
  \<open>authToken\<close> are the generated token, which is not the empty string; the context user
  and the stored \<open>user\<close> are made from the first such row. On an offline device whose
  cache holds no such row, \<open>signIn\<close> throws the offline-authentication error, AsyncStorage
  is unchanged and no call was made on it.
\<close>

theorem offline_signIn:
  "(offline e \<and> cache_readable e w \<and>
    list_ex (matching email password) (users w) \<longrightarrow>
      fst (signIn e email password w) = Returns () \<and>
      offline_token e \<noteq> [] \<and>
      ctx_token (snd (signIn e email password w)) = Some (offline_token e) \<and>
      storage (snd (signIn e email password w)) ''authToken'' = Some (offline_token e) \<and>
      (\<exists>row. find (matching email password) (users w) = Some row \<and>
             ctx_user (snd (signIn e email password w)) = Some (user_of_row row) \<and>
             user_email (user_of_row row) = email \<and>
             storage (snd (signIn e email password w)) ''user'' =
               Some (JSON_stringify e (json_of_user (user_of_row row))))) \<and>
   (offline e \<and> \<not> list_ex (matching email password) (users w) \<longrightarrow>
      fst (signIn e email password w) = Throws (Error offline_message) \<and>
      storage (snd (signIn e email password w)) = storage w \<and>
      storage_calls (snd (signIn e email password w)) = storage_calls w)"
proof (intro conjI impI)
  assume a: "offline e \<and> \<not> list_ex (matching email password) (users w)"
  then have "find (matching email password) (users w) = None"
    by (simp add: find_None_iff list_ex_iff)
  with a have s: "signIn e email password w =
      (Throws (Error offline_message), w\<lparr>db := db w \<or> sqlite_opens e, isLoading := False\<rparr>)"
    by (simp add: offlineSignIn_miss)
  show "fst (signIn e email password w) = Throws (Error offline_message)"
    and "storage (snd (signIn e email password w)) = storage w"
    and "storage_calls (snd (signIn e email password w)) = storage_calls w"
    by (simp_all add: s)
next
  assume a: "offline e \<and> cache_readable e w \<and> list_ex (matching email password) (users w)"
  then obtain row where row: "find (matching email password) (users w) = Some row"
    by (cases "find (matching email password) (users w)")
       (auto simp: find_None_iff list_ex_iff)
  then have m: "matching email password row"
    by (auto simp: find_Some_iff)
  note s = offlineSignIn_hit [of e w email password row]
  from a row s show "fst (signIn e email password w) = Returns ()" by simp
  show "offline_token e \<noteq> []" by (simp add: offline_token_def)
  from a row s show "ctx_token (snd (signIn e email password w)) = Some (offline_token e)"
    by simp
  from a row s show "storage (snd (signIn e email password w)) ''authToken'' =
      Some (offline_token e)" by simp
  from a row s m show "\<exists>row. find (matching email password) (users w) = Some row \<and>
             ctx_user (snd (signIn e email password w)) = Some (user_of_row row) \<and>
             user_email (user_of_row row) = email \<and>
             storage (snd (signIn e email password w)) ''user'' =
               Some (JSON_stringify e (json_of_user (user_of_row row)))"
    by (simp add: matching_def user_of_row_def)
qed

theorem offline_signIn_witness:
  "offline offline_env \<and> cache_readable offline_env cached_world \<and>
   list_ex (matching ''ann@example.com'' ''secret1'') (users cached_world) \<and>
   \<not> list_ex (matching ''ann@example.com'' ''Secret1'') (users cached_world) \<and>
   fst (signIn offline_env ''ann@example.com'' ''secret1'' cached_world) = Returns () \<and>
   storage (snd (signIn offline_env ''ann@example.com'' ''secret1'' cached_world)) ''authToken'' =
     Some ''offline_1700000000000_k3j9x0q1z'' \<and>
   fst (signIn offline_env ''ann@example.com'' ''Secret1'' cached_world) =
     Throws (Error offline_message) \<and>
   storage (snd (signIn offline_env ''ann@example.com'' ''Secret1'' cached_world)) = Map.empty"
proof -
  have h1: "offline offline_env"
    by (simp add: offline_def offline_env_def)
  have h2: "cache_readable offline_env cached_world"
    by (simp add: cache_readable_def offline_env_def backend_env_def)
  have h3: "list_ex (matching ''ann@example.com'' ''secret1'') (users cached_world)"
    by (simp add: matching_def cached_world_def ann_row_def)
  have h4: "\<not> list_ex (matching ''ann@example.com'' ''Secret1'') (users cached_world)"
    by (simp add: matching_def cached_world_def ann_row_def)
  have t: "offline_token offline_env = ''offline_1700000000000_k3j9x0q1z''"
    by (simp add: offline_token_def offline_env_def backend_env_def)
  have s: "storage cached_world = Map.empty"
    by (simp add: cached_world_def fresh_world_def)
  from offline_signIn [of offline_env cached_world "''ann@example.com''" "''secret1''"]
       offline_signIn [of offline_env cached_world "''ann@example.com''" "''Secret1''"]
       h1 h2 h3 h4 t s
  show ?thesis by simp
qed

text \<open>
  Claim C10. \<open>checkLocalUser\<close> returns a value in every state of the database: it never
  throws and never stays pending. With a database that cannot be opened, or whose
  statements fail, it returns null, and an offline \<open>signIn\<close> throws the same
  offline-authentication error as for a cache miss.
\<close>

theorem checkLocalUser_never_throws:
  "(\<exists>r. checkLocalUser e email password w = (Returns r, w\<lparr>db := db w \<or> sqlite_opens e\<rparr>)) \<and>
   (\<not> cache_readable e w \<longrightarrow>
      fst (checkLocalUser e email password w) = Returns None \<and>
      (offline e \<longrightarrow>
         signIn e email password w =
           (Throws (Error offline_message),
            w\<lparr>db := db w \<or> sqlite_opens e, isLoading := False\<rparr>)))"
  using checkLocalUser_total [of e email password w]
        offlineSignIn_miss [of e w email password]
  by auto

theorem checkLocalUser_never_throws_witness:
  "\<not> cache_readable broken_env cached_world \<and> offline broken_env \<and>
   checkLocalUser broken_env ''ann@example.com'' ''secret1'' cached_world =
     (Returns None, cached_world) \<and>
   signIn broken_env ''ann@example.com'' ''secret1'' cached_world =
     (Throws (Error offline_message), cached_world)"
proof -
  have h1: "\<not> cache_readable broken_env cached_world"
    by (simp add: cache_readable_def broken_env_def)
  have h2: "offline broken_env"
    by (simp add: offline_def broken_env_def offline_env_def)
  have w: "cached_world\<lparr>db := db cached_world \<or> sqlite_opens broken_env\<rparr> = cached_world"
    "cached_world\<lparr>db := db cached_world \<or> sqlite_opens broken_env, isLoading := False\<rparr> =
       cached_world"
    by (simp_all add: cached_world_def fresh_world_def broken_env_def)
  from checkLocalUser_never_throws [of broken_env "''ann@example.com''" "''secret1''" cached_world]
       h1 h2 w
  show ?thesis by auto
qed

lemma saveLocalUser_result:
  "saveLocalUser e user password w =
     (Returns (),
      w\<lparr>db := db w \<or> sqlite_opens e,
        users := (case user of
                    None \<Rightarrow> users w
                  | Some usr \<Rightarrow>
                      if cache_readable e w then
                        insert_or_replace
                          \<lparr>row_id = user_id usr, row_email = user_email usr,
                           row_name = user_name usr, row_password = password,
                           row_role = user_role usr,
                           row_is_active = (if user_is_active usr then 1 else 0),
                           row_created_at = user_created_at usr,
                           row_last_synced = iso_now e\<rparr> (users w)
                      else users w)\<rparr>)"
  by (auto simp: saveLocalUser_def initDatabase_def runAsync_def cache_readable_def Let_def
        split: option.splits)

lemma onlineSignIn_success:
  assumes "onlineSignIn e email password w = (Returns (), w1)"
  shows "storage w1 = (storage w)(''authToken'' \<mapsto> the (storage w1 ''authToken''),
                                  ''user'' \<mapsto> the (storage w1 ''user''))"
  using assms
  unfolding onlineSignIn_def fetchWithTimeout_def fetch_def aborted_def andThen_def
    setItem_value_def setItem_def saveLocalUser_result Let_def
  by (auto split: reply.splits option.splits if_splits outcome.splits json.splits prod.splits)

lemma signIn_success:
  assumes "signIn e email password w = (Returns (), w1)"
  shows "\<exists>t u. storage w1 = (storage w)(''authToken'' \<mapsto> t, ''user'' \<mapsto> u)"
proof (cases "offline e")
  case True
  show ?thesis
  proof (cases "cache_readable e w \<and> find (matching email password) (users w) \<noteq> None")
    case hit: True
    then obtain row where "find (matching email password) (users w) = Some row" by blast
    with hit True assms offlineSignIn_hit [of e w email password row] show ?thesis
      by auto
  next
    case False
    with True assms offlineSignIn_miss [of e w email password] show ?thesis
      by auto
  qed
next
  case False
  with assms obtain w' where "onlineSignIn e email password (w\<lparr>isLoading := True\<rparr>) = (Returns (), w')"
    and "w1 = w'\<lparr>isLoading := False\<rparr>"
    by (auto simp: signIn_def split: prod.splits outcome.splits)
  with onlineSignIn_success [of e email password "w\<lparr>isLoading := True\<rparr>" w'] show ?thesis
    by (intro exI [of _ "the (storage w' ''authToken'')"] exI [of _ "the (storage w' ''user'')"])
       simp
qed

text \<open>
  Claim C6. From a storage with neither \<open>authToken\<close> nor \<open>user\<close>, a \<open>signIn\<close> that
  returns (offline or online) has stored both keys, and the \<open>signOut\<close> that follows
  returns and leaves the whole storage equal to the one before \<open>signIn\<close>; the context
  holds neither token nor user.
\<close>

theorem signIn_signOut_roundtrip:
  assumes "storage w ''authToken'' = None" and "storage w ''user'' = None"
    and "signIn e email password w = (Returns (), w1)"
  shows "storage w1 ''authToken'' \<noteq> None \<and> storage w1 ''user'' \<noteq> None \<and>
         fst (signOut w1) = Returns () \<and>
         storage (snd (signOut w1)) = storage w \<and>
         storage (snd (signOut w1)) ''authToken'' = None \<and>
         storage (snd (signOut w1)) ''user'' = None \<and>
         ctx_token (snd (signOut w1)) = None \<and> ctx_user (snd (signOut w1)) = None"
proof -
  obtain t u where st: "storage w1 = (storage w)(''authToken'' \<mapsto> t, ''user'' \<mapsto> u)"
    using signIn_success [OF assms(3)] by blast
  have undone: "(storage w1)(''authToken'' := None, ''user'' := None) = storage w"
    using assms(1,2) by (auto simp: st fun_eq_iff)
  show ?thesis
    using assms(1,2) undone
    by (simp add: signOut_def removeItem_def andThen_def) (simp add: st)
qed

theorem signIn_signOut_roundtrip_witness:
  "storage fresh_world ''authToken'' = None \<and> storage fresh_world ''user'' = None \<and>
   fst (signIn login_env ''ann@example.com'' ''secret1'' fresh_world) = Returns () \<and>
   storage (snd (signIn login_env ''ann@example.com'' ''secret1'' fresh_world)) ''authToken'' =
     Some ''jwt.abc'' \<and>
   users (snd (signIn login_env ''ann@example.com'' ''secret1'' fresh_world)) =
     [ann_row\<lparr>row_last_synced := ''2023-11-14T22:13:20.000Z''\<rparr>] \<and>
   storage (snd (signOut (snd (signIn login_env ''ann@example.com'' ''secret1'' fresh_world)))) =
     storage fresh_world"
proof -
  let ?w1 = "snd (signIn login_env ''ann@example.com'' ''secret1'' fresh_world)"
  have ev: "fst (signIn login_env ''ann@example.com'' ''secret1'' fresh_world) = Returns ()"
    "storage ?w1 ''authToken'' = Some ''jwt.abc''"
    "users ?w1 = [ann_row\<lparr>row_last_synced := ''2023-11-14T22:13:20.000Z''\<rparr>]"
    by (simp_all add: signIn_def onlineSignIn_def offline_def login_env_def backend_env_def
          fresh_world_def fetchWithTimeout_def fetch_def aborted_def valid_status_def
          loginRequest_def login_ok_def
          resp_ok_def andThen_def setItem_value_def setItem_def saveLocalUser_result
          user_of_json_def cache_readable_def insert_or_replace_def ann_row_def Let_def)
  then have h3: "signIn login_env ''ann@example.com'' ''secret1'' fresh_world = (Returns (), ?w1)"
    by (metis prod.collapse)
  have h1: "storage fresh_world ''authToken'' = None" and h2: "storage fresh_world ''user'' = None"
    by (simp_all add: fresh_world_def)
  from signIn_signOut_roundtrip [OF h1 h2 h3] h1 h2 ev show ?thesis by simp
qed

text \<open>
  Claim C7, as the code has it. \<open>uploadCertificate\<close> throws
  \<open>Error("Not authenticated")\<close> without a token, and the offline error with a token on an
  offline device. \<open>updateMechanicInfo\<close> returns at once, changing nothing, when there is no
  token or the user is absent or not a mechanic; for a mechanic with a token on an offline
  device it throws the offline error.
\<close>

theorem mechanic_guards:
  "(no_token w \<longrightarrow>
      uploadCertificate e certificateUri w = (Throws (Error ''Not authenticated''), w)) \<and>
   (\<not> no_token w \<and> offline e \<longrightarrow>
      uploadCertificate e certificateUri w = (Throws (Error upload_offline_message), w)) \<and>
   (no_token w \<or> not_a_mechanic w \<longrightarrow> updateMechanicInfo e info w = (Returns (), w)) \<and>
   (\<not> no_token w \<and> \<not> not_a_mechanic w \<and> offline e \<longrightarrow>
      updateMechanicInfo e info w = (Throws (Error update_offline_message), w))"
  by (auto simp: uploadCertificate_def updateMechanicInfo_def)

theorem mechanic_guards_witness:
  "no_token fresh_world \<and> \<not> no_token mechanic_world \<and> \<not> not_a_mechanic mechanic_world \<and>
   offline offline_env \<and>
   uploadCertificate offline_env ''file:///cert.jpg'' fresh_world =
     (Throws (Error ''Not authenticated''), fresh_world) \<and>
   uploadCertificate offline_env ''file:///cert.jpg'' mechanic_world =
     (Throws (Error upload_offline_message), mechanic_world) \<and>
   updateMechanicInfo offline_env new_phone mechanic_world =
     (Throws (Error update_offline_message), mechanic_world)"
proof -
  have h1: "no_token fresh_world"
    by (simp add: no_token_def fresh_world_def)
  have h2: "\<not> no_token mechanic_world"
    by (simp add: no_token_def mechanic_world_def)
  have h3: "\<not> not_a_mechanic mechanic_world"
    by (simp add: not_a_mechanic_def mechanic_world_def ann_def user_of_row_def ann_row_def)
  have h4: "offline offline_env"
    by (simp add: offline_def offline_env_def)
  from mechanic_guards [of fresh_world offline_env "''file:///cert.jpg''" new_phone]
       mechanic_guards [of mechanic_world offline_env "''file:///cert.jpg''" new_phone]
       h1 h2 h3 h4
  show ?thesis by simp
qed

text \<open>
  Claim C7 as stated fails for \<open>updateMechanicInfo\<close>: without a token it returns
  normally, and with a token but no user it returns normally even offline.
\<close>

theorem updateMechanicInfo_silent_counterexample:
  "no_token fresh_world \<and>
   updateMechanicInfo backend_env new_phone fresh_world = (Returns (), fresh_world) \<and>
   \<not> no_token (mechanic_world\<lparr>ctx_user := None\<rparr>) \<and> offline offline_env \<and>
   updateMechanicInfo offline_env new_phone (mechanic_world\<lparr>ctx_user := None\<rparr>) =
     (Returns (), mechanic_world\<lparr>ctx_user := None\<rparr>)"
  by (simp add: updateMechanicInfo_def no_token_def not_a_mechanic_def fresh_world_def
        mechanic_world_def offline_def offline_env_def)

end
